theory Spec2Isabelle
  imports Complex_Main
begin

section \<open>The AQT device of pennylane-aqt (\<^verbatim>\<open>pennylane_aqt/device.py\<close>)\<close>

text \<open>
  The device class translates a list of framework operations into the entries of a
  vendor circuit, submits the serialised circuit to the gateway and polls for the
  samples. The model follows the class method by method. Python floats are modelled as
  reals and \<^verbatim>\<open>np.pi\<close> as \<^term>\<open>pi\<close>; the fixed angles of the source,
  \<^verbatim>\<open>0.5 * np.pi / np.pi\<close> and \<^verbatim>\<open>np.pi / np.pi\<close>, are exact in binary floating point as well.
  Other products and quotients are rounded in the source and exact here, so a property
  below names the operations the code performs on an angle and never cancels a product
  against a quotient.
  A method that mutates \<^verbatim>\<open>self\<close> takes the device and returns it updated, together with
  the exception it raised, if any: an exception does not undo the assignments made
  before it.
\<close>

subsection \<open>Exceptions\<close>

text \<open>
  \<open>DeviceError\<close> and \<open>ValueError\<close> carry the message where the source writes one; the
  texts of exceptions raised by Python itself or by a library are not modelled.
  \<open>KeyError\<close> carries the key that was missing.
\<close>

datatype error =
    DeviceError string
  | ValueError string
  | KeyError string
  | TypeError
  | IndexError
  | JSONDecodeError
  | InvalidStatus nat string

fun is_DeviceError :: "error \<Rightarrow> bool" where
  "is_DeviceError (DeviceError _) = True"
| "is_DeviceError _ = False"

subsection \<open>Operations, parameters and circuit entries\<close>

text \<open>
  A parameter of an operation is a number or a one-dimensional array of numbers (the bits
  of \<open>BasisState\<close>, the amplitudes of \<open>QubitStateVector\<close>).
\<close>

datatype param = Num real | Arr "real list"

record operation =
  name :: string
  parameters :: "param list"
  wires :: "nat list"

text \<open>
  The local variable \<^verbatim>\<open>par\<close> of \<^verbatim>\<open>_apply_operation\<close> is \<^verbatim>\<open>None\<close>, one parameter, or the
  whole list \<^verbatim>\<open>operation.parameters\<close>.
\<close>

datatype par = NonePar | Val param | ParList "param list"

text \<open>
  An entry of \<^verbatim>\<open>self.circuit\<close>: \<^verbatim>\<open>[aqt_op_name, par, wires]\<close>, where the name comes out of
  \<^verbatim>\<open>_operation_map\<close> and may be \<^verbatim>\<open>None\<close> there, or \<^verbatim>\<open>[op_name, par[0], par[1], wires]\<close>.
\<close>

datatype entry =
    Gate "string option" param "nat list"
  | Gate2 string param param "nat list"

datatype jval = JNull | JStr string | JInt int

text \<open>
  \<^verbatim>\<open>join_path\<close> belongs to \<^verbatim>\<open>api_client\<close>, which is not among the sources: the host name
  is kept as the pair of its two arguments.
\<close>

type_synonym url = "string \<times> string"

record AQTDevice =
  num_wires :: nat
  shots :: int
  initial_shots :: int
  api_key :: "string option"
  circuit :: "entry list"
  circuit_json :: string
  samples :: "int list option"
  header :: "string \<rightharpoonup> string"
  data :: "string \<rightharpoonup> jval"
  hostname :: url

definition BASE_SHOTS :: int where
  "BASE_SHOTS = 200"

definition BASE_HOSTNAME :: string where
  "BASE_HOSTNAME = ''https://gateway.aqt.eu/marmot''"

definition TARGET_PATH :: string where
  "TARGET_PATH = ''''"

definition HTTP_METHOD :: string where
  "HTTP_METHOD = ''PUT''"

text \<open>\<^verbatim>\<open>_operation_map\<close>: a key may be present with the value \<^verbatim>\<open>None\<close>.\<close>

definition operation_map :: "string \<rightharpoonup> string option" where
  "operation_map = map_of
     [(''RX'', Some ''X''),
      (''RY'', Some ''Y''),
      (''RZ'', Some ''Z''),
      (''BasisState'', None),
      (''PauliX'', None),
      (''PauliY'', None),
      (''PauliZ'', None),
      (''Hadamard'', None),
      (''R'', Some ''R''),
      (''MS'', Some ''MS'')]"

subsection \<open>Python's operators on \<^verbatim>\<open>par\<close>\<close>

text \<open>\<^verbatim>\<open>par[i]\<close>: \<^verbatim>\<open>None\<close> and a float are not subscriptable.\<close>

fun subscript :: "par \<Rightarrow> nat \<Rightarrow> error + param" where
  "subscript NonePar i = Inl TypeError"
| "subscript (Val (Num r)) i = Inl TypeError"
| "subscript (Val (Arr a)) i = (if i < length a then Inr (Num (a ! i)) else Inl IndexError)"
| "subscript (ParList ps) i = (if i < length ps then Inr (ps ! i) else Inl IndexError)"

text \<open>The items \<^verbatim>\<open>zip(par, wires)\<close> draws from \<^verbatim>\<open>par\<close>; \<^verbatim>\<open>zip\<close> refuses what is not iterable.\<close>

fun items :: "par \<Rightarrow> error + param list" where
  "items NonePar = Inl TypeError"
| "items (Val (Num r)) = Inl TypeError"
| "items (Val (Arr a)) = Inr (map Num a)"
| "items (ParList ps) = Inr ps"

text \<open>
  The test \<^verbatim>\<open>if bit == 1\<close>. On an array the comparison is elementwise, and the truth value
  of an array of more than one element is a \<^verbatim>\<open>ValueError\<close>.
\<close>

fun eq_one :: "param \<Rightarrow> error + bool" where
  "eq_one (Num r) = Inr (r = 1)"
| "eq_one (Arr []) = Inr False"
| "eq_one (Arr [x]) = Inr (x = 1)"
| "eq_one (Arr (x # y # zs)) = Inl (ValueError [])"

text \<open>
  \<^verbatim>\<open>par *= np.pi\<close> and \<^verbatim>\<open>par / np.pi\<close>: defined on a float and, elementwise, on an array.
  In double precision the quotient of such a product by \<open>\<pi>\<close> need not give the factor back (for
  0.17 it gives 0.17000000000000004).
\<close>

fun times_pi :: "par \<Rightarrow> error + par" where
  "times_pi NonePar = Inl TypeError"
| "times_pi (Val (Num r)) = Inr (Val (Num (r * pi)))"
| "times_pi (Val (Arr a)) = Inr (Val (Arr (map (\<lambda>x. x * pi) a)))"
| "times_pi (ParList ps) = Inl TypeError"

fun div_pi :: "par \<Rightarrow> error + param" where
  "div_pi NonePar = Inl TypeError"
| "div_pi (Val (Num r)) = Inr (Num (r / pi))"
| "div_pi (Val (Arr a)) = Inr (Arr (map (\<lambda>x. x / pi) a))"
| "div_pi (ParList ps) = Inl TypeError"

subsection \<open>The operation translator\<close>

text \<open>\<^verbatim>\<open>_append_op_to_queue\<close>: the division comes first, then the lookup, then the append.\<close>

definition append_op_to_queue ::
  "string \<Rightarrow> par \<Rightarrow> nat list \<Rightarrow> AQTDevice \<Rightarrow> error option \<times> AQTDevice" where
  "append_op_to_queue op_name par ws self =
     (case div_pi par of
        Inl e \<Rightarrow> (Some e, self)
      | Inr par' \<Rightarrow>
          (case operation_map op_name of
             None \<Rightarrow> (Some (KeyError op_name), self)
           | Some aqt_op_name \<Rightarrow>
               (None, self\<lparr>circuit := circuit self @ [Gate aqt_op_name par' ws]\<rparr>)))"

text \<open>The loop of the \<open>BasisState\<close> branch over \<^verbatim>\<open>zip(par, wires)\<close>.\<close>

fun basis_flips :: "(param \<times> nat) list \<Rightarrow> AQTDevice \<Rightarrow> error option \<times> AQTDevice" where
  "basis_flips [] self = (None, self)"
| "basis_flips ((b, wire) # rest) self =
     (case eq_one b of
        Inl e \<Rightarrow> (Some e, self)
      | Inr is_one \<Rightarrow>
          (if is_one then
             (case append_op_to_queue ''RX'' (Val (Num pi)) [wire] self of
                (Some e, self') \<Rightarrow> (Some e, self')
              | (None, self') \<Rightarrow> basis_flips rest self')
           else basis_flips rest self))"

text \<open>
  \<^verbatim>\<open>_apply_operation(operation)\<close>. Both calls in the source (in \<^verbatim>\<open>apply\<close>) leave the optional
  arguments \<^verbatim>\<open>par\<close> and \<^verbatim>\<open>wires\<close> at \<^verbatim>\<open>None\<close>, so \<^verbatim>\<open>par or e\<close> is \<^verbatim>\<open>e\<close> and
  \<^verbatim>\<open>wires or operation.wires\<close> is \<^verbatim>\<open>operation.wires\<close>.
\<close>

definition select_par :: "operation \<Rightarrow> par" where
  "select_par operation =
     (if length (parameters operation) = 1 then Val (parameters operation ! 0)
      else if length (parameters operation) = 2 then ParList (parameters operation)
      else NonePar)"

definition apply_operation :: "operation \<Rightarrow> AQTDevice \<Rightarrow> error option \<times> AQTDevice" where
  "apply_operation operation self =
     (let op_name = name operation;
          par = select_par operation;
          ws = wires operation
      in
        if op_name = ''R'' then
          (case subscript par 0 of
             Inl e \<Rightarrow> (Some e, self)
           | Inr p0 \<Rightarrow>
               (case subscript par 1 of
                  Inl e \<Rightarrow> (Some e, self)
                | Inr p1 \<Rightarrow> (None, self\<lparr>circuit := circuit self @ [Gate2 op_name p0 p1 ws]\<rparr>)))
        else if name operation = ''BasisState'' then
          (case items par of
             Inl e \<Rightarrow> (Some e, self)
           | Inr bits \<Rightarrow> basis_flips (zip bits ws) self)
        else if op_name = ''Hadamard'' then
          append_op_to_queue ''RY'' (Val (Num (0.5 * pi))) ws self
        else if op_name \<in> {''PauliX'', ''PauliY'', ''PauliZ''} then
          append_op_to_queue (''R'' @ [last op_name]) (Val (Num pi)) ws self
        else if op_name = ''MS'' then
          (case times_pi par of
             Inl e \<Rightarrow> (Some e, self)
           | Inr par' \<Rightarrow> append_op_to_queue op_name par' ws self)
        else append_op_to_queue op_name par ws self)"

subsection \<open>Configuration: \<^verbatim>\<open>__init__\<close>, \<^verbatim>\<open>set_api_configs\<close>, \<^verbatim>\<open>reset\<close>\<close>

text \<open>
  The API key is \<^verbatim>\<open>None\<close> or a string; \<^verbatim>\<open>None\<close> and the empty string are falsy.
  \<^verbatim>\<open>a or b\<close> is \<^verbatim>\<open>a\<close> when \<^verbatim>\<open>a\<close> is truthy and \<^verbatim>\<open>b\<close> otherwise.
\<close>

fun truthy :: "string option \<Rightarrow> bool" where
  "truthy None = False"
| "truthy (Some k) = (k \<noteq> [])"

definition py_or :: "string option \<Rightarrow> string option \<Rightarrow> string option" where
  "py_or a b = (if truthy a then a else b)"

fun token :: "string option \<Rightarrow> jval" where
  "token None = JNull"
| "token (Some k) = JStr k"

text \<open>
  \<^verbatim>\<open>set_api_configs\<close>; \<open>getenv\<close> is the process environment read by \<^verbatim>\<open>os.getenv\<close>. The key
  is assigned before it is tested.
\<close>

definition set_api_configs ::
  "(string \<Rightarrow> string option) \<Rightarrow> AQTDevice \<Rightarrow> error option \<times> AQTDevice" where
  "set_api_configs getenv self =
     (let self1 = self\<lparr>api_key := py_or (api_key self) (getenv ''AQT_TOKEN'')\<rparr>
      in if \<not> truthy (api_key self1) then
           (Some (ValueError ''No valid api key for AQT platform found.''), self1)
         else
           (None, self1\<lparr>header := [''Ocp-Apim-Subscription-Key'' \<mapsto> the (api_key self1)],
                          data := [''access_token'' \<mapsto> token (api_key self1),
                                   ''no_qubits'' \<mapsto> JInt (int (num_wires self1))],
                          hostname := (BASE_HOSTNAME, TARGET_PATH)\<rparr>))"

text \<open>
  \<^verbatim>\<open>__init__\<close>: the constructor of the base class, which belongs to the framework and not to
  this repository, comes first; it stores the numbers of wires and shots and refuses a
  number of shots below 1 with a \<open>DeviceError\<close> (whose text is not modelled). The
  attributes \<^verbatim>\<open>header\<close>, \<^verbatim>\<open>data\<close> and \<^verbatim>\<open>hostname\<close> do not exist before \<^verbatim>\<open>set_api_configs\<close>
  assigns them; when it raises, no device is constructed.
\<close>

definition init ::
  "(string \<Rightarrow> string option) \<Rightarrow> nat \<Rightarrow> int \<Rightarrow> string option \<Rightarrow> error + AQTDevice" where
  "init getenv n_wires n_shots key =
     (if n_shots < 1 then Inl (DeviceError [])
      else
        (case set_api_configs getenv
                \<lparr>num_wires = n_wires, shots = n_shots, initial_shots = n_shots, api_key = key,
                 circuit = [], circuit_json = [], samples = None,
                 header = Map.empty, data = Map.empty, hostname = ([], [])\<rparr> of
           (Some e, self) \<Rightarrow> Inl e
         | (None, self) \<Rightarrow> Inr self))"

text \<open>
  \<^verbatim>\<open>reset\<close>. The four assignments come before \<^verbatim>\<open>set_api_configs\<close>; the shot count assigned is
  the one the constructor accepted.
\<close>

definition reset :: "(string \<Rightarrow> string option) \<Rightarrow> AQTDevice \<Rightarrow> error option \<times> AQTDevice" where
  "reset getenv self =
     set_api_configs getenv
       (self\<lparr>shots := initial_shots self, circuit := [], circuit_json := [], samples := None\<rparr>)"

subsection \<open>The gateway\<close>

text \<open>
  A job as the gateway reports it: a JSON object whose keys \<^verbatim>\<open>id\<close>, \<^verbatim>\<open>status\<close> and
  \<^verbatim>\<open>samples\<close> may each be absent. A response has a status code, a body, and the job its
  \<^verbatim>\<open>.json()\<close> decodes to, if the body is JSON.
\<close>

record job =
  job_id :: "string option"
  job_status :: "string option"
  job_samples :: "int list option"

record response =
  status_code :: nat
  body_text :: string
  json :: "job option"

record request =
  http_method :: string
  target :: url
  body :: "string \<rightharpoonup> jval"
  headers :: "string \<rightharpoonup> string"

text \<open>
  The network, seen from the device: the requests sent so far, in order, and the answers
  the gateway will give to the next requests. The poll loop of \<^verbatim>\<open>apply\<close> has no bound;
  when the answers run out before it ends, the outcome of the call is \<open>Waiting\<close>.
\<close>

record net =
  sent :: "request list"
  pending :: "response list"

datatype 'a outcome = Returned 'a | Raised error | Waiting

text \<open>
  Modelled from the spec: \<^verbatim>\<open>api_client.submit\<close>, which is not among the sources, is one
  HTTP call with the given method, host, body and headers; it returns the response.
\<close>

definition submit ::
  "string \<Rightarrow> url \<Rightarrow> (string \<rightharpoonup> jval) \<Rightarrow> (string \<rightharpoonup> string) \<Rightarrow> net \<Rightarrow> (response \<times> net) option" where
  "submit m h b hdr nw =
     (case pending nw of
        [] \<Rightarrow> None
      | r # rs \<Rightarrow>
          Some (r, nw\<lparr>sent := sent nw @ [\<lparr>http_method = m, target = h, body = b, headers = hdr\<rparr>],
                      pending := rs\<rparr>))"

text \<open>
  Modelled from the spec: \<^verbatim>\<open>api_client.raise_invalid_status_exception\<close>, which is not among
  the sources, fails with a gateway error carrying the HTTP status and the body. The value
  is the exception it raises.
\<close>

definition raise_invalid_status_exception :: "response \<Rightarrow> error" where
  "raise_invalid_status_exception r = InvalidStatus (status_code r) (body_text r)"

subsection \<open>\<^verbatim>\<open>apply\<close>\<close>

text \<open>The first loop of \<^verbatim>\<open>apply\<close>, over \<^verbatim>\<open>enumerate(operations)\<close>, from index \<open>i\<close> on.\<close>

fun apply_operations :: "nat \<Rightarrow> operation list \<Rightarrow> AQTDevice \<Rightarrow> error option \<times> AQTDevice" where
  "apply_operations i [] self = (None, self)"
| "apply_operations i (operation # rest) self =
     (if i > 0 \<and> name operation \<in> {''BasisState'', ''QubitStateVector''} then
        (Some (DeviceError (''The operation '' @ name operation
                              @ '' is only supported at the beginning of a circuit.'')), self)
      else
        (case apply_operation operation self of
           (Some e, self') \<Rightarrow> (Some e, self')
         | (None, self') \<Rightarrow> apply_operations (Suc i) rest self'))"

text \<open>The second loop, over \<^verbatim>\<open>rotations\<close>.\<close>

fun apply_rotations :: "operation list \<Rightarrow> AQTDevice \<Rightarrow> error option \<times> AQTDevice" where
  "apply_rotations [] self = (None, self)"
| "apply_rotations (operation # rest) self =
     (case apply_operation operation self of
        (Some e, self') \<Rightarrow> (Some e, self')
      | (None, self') \<Rightarrow> apply_rotations rest self')"

text \<open>\<^verbatim>\<open>serialize\<close> is \<^verbatim>\<open>json.dumps\<close>, a parameter of the model.\<close>

definition serialize :: "(entry list \<Rightarrow> string) \<Rightarrow> entry list \<Rightarrow> string" where
  "serialize dumps c = dumps c"

text \<open>
  The poll loop \<^verbatim>\<open>while job["status"] != "finished"\<close>. Each round sends the query and
  decodes the answer; the status code of a poll answer is not looked at.
\<close>

function poll ::
  "url \<Rightarrow> (string \<rightharpoonup> jval) \<Rightarrow> (string \<rightharpoonup> string) \<Rightarrow> job \<Rightarrow> net \<Rightarrow> job outcome \<times> net" where
  "poll h q hdr jb nw =
     (case job_status jb of
        None \<Rightarrow> (Raised (KeyError ''status''), nw)
      | Some s \<Rightarrow>
          (if s \<noteq> ''finished'' then
             (case submit HTTP_METHOD h q hdr nw of
                None \<Rightarrow> (Waiting, nw)
              | Some (r, nw') \<Rightarrow>
                  (case json r of
                     None \<Rightarrow> (Raised JSONDecodeError, nw')
                   | Some jb' \<Rightarrow> poll h q hdr jb' nw'))
           else (Returned jb, nw)))"
  by pat_completeness auto
termination
  by (relation "measure (\<lambda>(h, q, hdr, jb, nw). length (pending nw))")
     (auto simp: submit_def split: list.splits)

declare poll.simps [simp del]

text \<open>
  The second half of \<^verbatim>\<open>apply\<close>, from \<^verbatim>\<open># create circuit job for submission\<close> on: serialise,
  submit, check the status, poll, store the samples. \<open>valid_status_code\<close> belongs to
  \<^verbatim>\<open>api_client\<close>, which is not among the sources, and is a parameter.
\<close>

definition run_job ::
  "(entry list \<Rightarrow> string) \<Rightarrow> (response \<Rightarrow> bool) \<Rightarrow> AQTDevice \<Rightarrow> net \<Rightarrow>
     unit outcome \<times> AQTDevice \<times> net" where
  "run_job dumps valid_status_code self nw =
     (let self3 = self\<lparr>circuit_json := serialize dumps (circuit self)\<rparr>;
          self4 = self3\<lparr>data := (data self3)(''repetitions'' \<mapsto> JInt (shots self3))\<rparr>;
          job_submission = (data self4)(''data'' \<mapsto> JStr (circuit_json self4))
      in case submit HTTP_METHOD (hostname self4) job_submission (header self4) nw of
           None \<Rightarrow> (Waiting, self4, nw)
         | Some (resp, nw1) \<Rightarrow>
             (if \<not> valid_status_code resp then
                (Raised (raise_invalid_status_exception resp), self4, nw1)
              else
                (case json resp of
                   None \<Rightarrow> (Raised JSONDecodeError, self4, nw1)
                 | Some jb \<Rightarrow>
                     (case job_id jb of
                        None \<Rightarrow> (Raised (KeyError ''id''), self4, nw1)
                      | Some i \<Rightarrow>
                          (case poll (hostname self4)
                                  [''id'' \<mapsto> JStr i, ''access_token'' \<mapsto> token (api_key self4)]
                                  (header self4) jb nw1 of
                             (Waiting, nw2) \<Rightarrow> (Waiting, self4, nw2)
                           | (Raised e, nw2) \<Rightarrow> (Raised e, self4, nw2)
                           | (Returned jb', nw2) \<Rightarrow>
                               (case job_samples jb' of
                                  None \<Rightarrow> (Raised (KeyError ''samples''), self4, nw2)
                                | Some xs \<Rightarrow>
                                    (Returned (), self4\<lparr>samples := Some xs\<rparr>, nw2)))))))"

text \<open>
  \<^verbatim>\<open>apply(operations, rotations=...)\<close>: the two translation loops, then the job. An exception
  in a loop ends the call with the device as the loop left it and the network untouched.
\<close>

definition apply_aqt ::
  "(entry list \<Rightarrow> string) \<Rightarrow> (response \<Rightarrow> bool) \<Rightarrow> operation list \<Rightarrow> operation list \<Rightarrow>
     AQTDevice \<Rightarrow> net \<Rightarrow> unit outcome \<times> AQTDevice \<times> net" where
  "apply_aqt dumps valid_status_code operations rotations self nw =
     (case apply_operations 0 operations self of
        (Some e, self1) \<Rightarrow> (Raised e, self1, nw)
      | (None, self1) \<Rightarrow>
          (case apply_rotations rotations self1 of
             (Some e, self2) \<Rightarrow> (Raised e, self2, nw)
           | (None, self2) \<Rightarrow> run_job dumps valid_status_code self2 nw))"

subsection \<open>\<^verbatim>\<open>generate_samples\<close>\<close>

text \<open>
  \<^verbatim>\<open>np.unravel_index(indices, [2] * n, order="F")\<close>: one array per axis, the first axis
  varying fastest, so that axis \<open>k\<close> holds bit \<open>k\<close> of each index. An index outside
  \<open>0 ..< 2 ^ n\<close> is a \<^verbatim>\<open>ValueError\<close>, and an empty list of indices, which numpy reads as an
  array of floats, a \<^verbatim>\<open>TypeError\<close>. The bounds numpy itself puts on the number of axes (32)
  and on the size of an index (64 bits) are not part of the model.
\<close>

definition unravel_index :: "int list \<Rightarrow> nat \<Rightarrow> error + int list list" where
  "unravel_index indices n =
     (if indices = [] then Inl TypeError
      else if filter (\<lambda>s. s < 0 \<or> 2 ^ n \<le> s) indices \<noteq> [] then Inl (ValueError [])
      else Inr (map (\<lambda>k. map (\<lambda>s. (s div 2 ^ k) mod 2) indices) [0..<n]))"

text \<open>
  \<^verbatim>\<open>np.stack\<close> of the per-axis arrays has one row per wire (and refuses an empty tuple);
  \<^verbatim>\<open>.T\<close> turns it into one row per shot.
\<close>

definition generate_samples :: "AQTDevice \<Rightarrow> error + int list list" where
  "generate_samples self =
     (case samples self of
        None \<Rightarrow> Inl TypeError
      | Some xs \<Rightarrow>
          (case unravel_index xs (num_wires self) of
             Inl e \<Rightarrow> Inl e
           | Inr axes \<Rightarrow> (if axes = [] then Inl (ValueError []) else Inr (transpose axes))))"

subsection \<open>Well-formed entries, configured devices and concrete inputs\<close>

text \<open>An entry is well formed when its gate name is a string, not \<^verbatim>\<open>None\<close>.\<close>

fun well_named :: "entry \<Rightarrow> bool" where
  "well_named (Gate aqt_op_name p ws) = (aqt_op_name \<noteq> None)"
| "well_named (Gate2 op_name p0 p1 ws) = True"

text \<open>The device \<^verbatim>\<open>AQTDevice(3, api_key="key")\<close>, as \<^verbatim>\<open>__init__\<close> leaves it.\<close>

definition device3 :: AQTDevice where
  "device3 =
     \<lparr>num_wires = 3, shots = 200, initial_shots = 200, api_key = Some ''key'',
      circuit = [], circuit_json = [], samples = None,
      header = [''Ocp-Apim-Subscription-Key'' \<mapsto> ''key''],
      data = [''access_token'' \<mapsto> JStr ''key'', ''no_qubits'' \<mapsto> JInt 3],
      hostname = (BASE_HOSTNAME, TARGET_PATH)\<rparr>"

text \<open>
  A device is configured with the key \<open>k\<close> when \<open>k\<close> is its API key, the value of its
  subscription header and the access token of its request data.
\<close>

definition configured :: "string \<Rightarrow> AQTDevice \<Rightarrow> bool" where
  "configured k self =
     (k \<noteq> [] \<and> api_key self = Some k
      \<and> header self = [''Ocp-Apim-Subscription-Key'' \<mapsto> k]
      \<and> data self ''access_token'' = Some (JStr k))"

text \<open>
  Concrete values for the parameters of the model: an environment without \<^verbatim>\<open>AQT_TOKEN\<close> and
  one that has it, the status check that accepts 200 only, and a serialiser that writes
  one \<^verbatim>\<open>g\<close> per entry (no property below depends on what the serialiser writes).
\<close>

definition no_token :: "string \<Rightarrow> string option" where
  "no_token v = None"

definition with_token :: "string \<Rightarrow> string option" where
  "with_token = [''AQT_TOKEN'' \<mapsto> ''token'']"

definition only_200 :: "response \<Rightarrow> bool" where
  "only_200 r = (status_code r = 200)"

definition tally_dumps :: "entry list \<Rightarrow> string" where
  "tally_dumps c = replicate (length c) (CHR ''g'')"

definition offline :: net where
  "offline = \<lparr>sent = [], pending = []\<rparr>"

text \<open>
  The device \<^verbatim>\<open>AQTDevice(3)\<close> constructed while \<^verbatim>\<open>AQT_TOKEN\<close> was \<^verbatim>\<open>token\<close>, as \<^verbatim>\<open>__init__\<close> leaves
  it.
\<close>

definition token_device :: AQTDevice where
  "token_device =
     \<lparr>num_wires = 3, shots = 200, initial_shots = 200, api_key = Some ''token'',
      circuit = [], circuit_json = [], samples = None,
      header = [''Ocp-Apim-Subscription-Key'' \<mapsto> ''token''],
      data = [''access_token'' \<mapsto> JStr ''token'', ''no_qubits'' \<mapsto> JInt 3],
      hostname = (BASE_HOSTNAME, TARGET_PATH)\<rparr>"

text \<open>The three-wire device after some use: other shots, a queued gate, cached samples.\<close>

definition used_device :: AQTDevice where
  "used_device =
     device3\<lparr>shots := 7, circuit := [Gate (Some ''X'') (Num 1) [0]],
             circuit_json := ''g'', samples := Some [5, 6]\<rparr>"

text \<open>A gateway that answers the next request with status 500 and a body that is not JSON.\<close>

definition refusing :: net where
  "refusing = \<lparr>sent = [], pending = [\<lparr>status_code = 500, body_text = ''error'', json = None\<rparr>]\<rparr>"

section \<open>Properties\<close>

subsection \<open>The operation map and the queue\<close>

lemma init_device3: "init (\<lambda>v. None) 3 BASE_SHOTS (Some ''key'') = Inr device3"
  by (simp add: init_def set_api_configs_def py_or_def device3_def BASE_SHOTS_def)

lemma operation_map_simps:
  "operation_map ''RX'' = Some (Some ''X'')"
  "operation_map ''RY'' = Some (Some ''Y'')"
  "operation_map ''RZ'' = Some (Some ''Z'')"
  "operation_map ''R'' = Some (Some ''R'')"
  "operation_map ''MS'' = Some (Some ''MS'')"
  "operation_map ''BasisState'' = Some None"
  "operation_map ''PauliX'' = Some None"
  "operation_map ''PauliY'' = Some None"
  "operation_map ''PauliZ'' = Some None"
  "operation_map ''Hadamard'' = Some None"
  by (simp_all add: operation_map_def)

lemma operation_map_cases:
  "operation_map n = Some v \<Longrightarrow>
     n \<in> {''RX'', ''RY'', ''RZ'', ''BasisState'', ''PauliX'', ''PauliY'', ''PauliZ'',
           ''Hadamard'', ''R'', ''MS''}"
  by (simp add: operation_map_def split: if_splits)

lemma append_num:
  "operation_map n = Some aqt \<Longrightarrow>
     append_op_to_queue n (Val (Num r)) ws self =
       (None, self\<lparr>circuit := circuit self @ [Gate aqt (Num (r / pi)) ws]\<rparr>)"
  by (simp add: append_op_to_queue_def)

text \<open>The loop over the bits of an array: one X entry per pair whose bit is 1.\<close>

lemma basis_flips_bits:
  "basis_flips (zip (map Num bits) ws) self =
     (None, self\<lparr>circuit := circuit self @
        map (\<lambda>(b, w). Gate (Some ''X'') (Num 1) [w]) (filter (\<lambda>(b, w). b = 1) (zip bits ws))\<rparr>)"
proof (induction bits arbitrary: ws self)
  case Nil
  show ?case by simp
next
  case (Cons b bits)
  show ?case
  proof (cases ws)
    case Nil
    then show ?thesis by simp
  next
    case (Cons w ws')
    then show ?thesis
      using Cons.IH [of ws'] by (simp add: append_num operation_map_simps)
  qed
qed

subsection \<open>What a translation can do to the device\<close>

text \<open>
  Translating an operation only appends to the circuit buffer, every entry it appends has
  a gate name, and none of the exceptions it can raise is a \<open>DeviceError\<close>.
\<close>

lemma append_result:
  "append_op_to_queue n p ws self = (r, self') \<Longrightarrow>
     (\<exists>e. r = Some e \<and> \<not> is_DeviceError e \<and> self' = self) \<or>
     (\<exists>aqt q. r = None \<and> operation_map n = Some aqt \<and> div_pi p = Inr q \<and>
        self' = self\<lparr>circuit := circuit self @ [Gate aqt q ws]\<rparr>)"
  by (auto simp: append_op_to_queue_def div_pi.simps split: sum.splits option.splits elim: div_pi.elims)

lemma append_appends:
  assumes "append_op_to_queue n p ws self = (r, self')" and "operation_map n \<noteq> Some None"
  shows "\<exists>added. self' = self\<lparr>circuit := circuit self @ added\<rparr> \<and> list_all well_named added"
proof -
  from append_result [OF assms(1)] show ?thesis
  proof
    assume "\<exists>e. r = Some e \<and> \<not> is_DeviceError e \<and> self' = self"
    then have "self' = self\<lparr>circuit := circuit self @ []\<rparr>" by auto
    then show ?thesis by (intro exI [of _ "[]"]) simp
  next
    assume "\<exists>aqt q. r = None \<and> operation_map n = Some aqt \<and> div_pi p = Inr q \<and>
        self' = self\<lparr>circuit := circuit self @ [Gate aqt q ws]\<rparr>"
    then obtain aqt q where a: "operation_map n = Some aqt"
      and s: "self' = self\<lparr>circuit := circuit self @ [Gate aqt q ws]\<rparr>" by blast
    from a assms(2) have "aqt \<noteq> None" by auto
    with s show ?thesis by (intro exI [of _ "[Gate aqt q ws]"]) simp
  qed
qed

lemma append_no_device_error:
  "append_op_to_queue n p ws self = (Some e, self') \<Longrightarrow> \<not> is_DeviceError e"
  using append_result [of n p ws self "Some e" self'] by auto

lemma eq_one_no_device_error: "eq_one b = Inl e \<Longrightarrow> \<not> is_DeviceError e"
  by (erule eq_one.elims) auto

lemma basis_flips_appends:
  "basis_flips zs self = (r, self') \<Longrightarrow>
     \<exists>added. self' = self\<lparr>circuit := circuit self @ added\<rparr> \<and> list_all well_named added"
proof (induction zs arbitrary: self)
  case Nil
  then have "self' = self\<lparr>circuit := circuit self @ []\<rparr>" by simp
  then show ?case by (intro exI [of _ "[]"]) simp
next
  case (Cons z zs)
  obtain b w where z: "z = (b, w)" by (cases z)
  show ?case
  proof (cases "eq_one b")
    case (Inl e)
    with Cons.prems z have "self' = self\<lparr>circuit := circuit self @ []\<rparr>" by simp
    then show ?thesis by (intro exI [of _ "[]"]) simp
  next
    case (Inr one)
    show ?thesis
    proof (cases one)
      case False
      with Cons.prems z Inr have "basis_flips zs self = (r, self')" by simp
      then show ?thesis by (rule Cons.IH)
    next
      case True
      obtain r1 s1 where a: "append_op_to_queue ''RX'' (Val (Num pi)) [w] self = (r1, s1)"
        by (cases "append_op_to_queue ''RX'' (Val (Num pi)) [w] self")
      have "operation_map ''RX'' \<noteq> Some None" by (simp add: operation_map_def)
      from append_appends [OF a this] obtain added1
        where s1: "s1 = self\<lparr>circuit := circuit self @ added1\<rparr>" and w1: "list_all well_named added1"
        by blast
      show ?thesis
      proof (cases r1)
        case (Some e)
        with Cons.prems z Inr True a have "self' = s1" by simp
        with s1 w1 show ?thesis by blast
      next
        case None
        with Cons.prems z Inr True a have "basis_flips zs s1 = (r, self')" by simp
        from Cons.IH [OF this] obtain added2
          where s2: "self' = s1\<lparr>circuit := circuit s1 @ added2\<rparr>" and w2: "list_all well_named added2"
          by blast
        from s1 s2 have "self' = self\<lparr>circuit := circuit self @ (added1 @ added2)\<rparr>" by simp
        moreover from w1 w2 have "list_all well_named (added1 @ added2)" by simp
        ultimately show ?thesis by blast
      qed
    qed
  qed
qed

lemma basis_flips_no_device_error:
  "basis_flips zs self = (Some e, self') \<Longrightarrow> \<not> is_DeviceError e"
proof (induction zs arbitrary: self)
  case Nil
  then show ?case by simp
next
  case (Cons z zs)
  obtain b w where z: "z = (b, w)" by (cases z)
  from Cons.prems z show ?case
    by (auto split: sum.splits if_splits prod.splits option.splits
        dest: eq_one_no_device_error append_no_device_error Cons.IH)
qed

lemma subscript_no_device_error: "subscript p i = Inl e \<Longrightarrow> \<not> is_DeviceError e"
  by (erule subscript.elims) (auto split: if_splits)

lemma items_no_device_error: "items p = Inl e \<Longrightarrow> \<not> is_DeviceError e"
  by (erule items.elims) auto

lemma times_pi_no_device_error: "times_pi p = Inl e \<Longrightarrow> \<not> is_DeviceError e"
  by (erule times_pi.elims) auto

lemma apply_operation_no_device_error:
  "apply_operation op self = (Some e, self') \<Longrightarrow> \<not> is_DeviceError e"
  by (auto simp: apply_operation_def Let_def split: if_splits sum.splits
      dest: subscript_no_device_error items_no_device_error times_pi_no_device_error
        append_no_device_error basis_flips_no_device_error)


lemma operation_map_rest:
  assumes "n \<noteq> ''R''" "n \<noteq> ''BasisState''" "n \<noteq> ''Hadamard''"
    "n \<notin> {''PauliX'', ''PauliY'', ''PauliZ''}"
  shows "operation_map n \<noteq> Some None"
  using assms by (auto simp: operation_map_def)

lemma apply_operation_appends:
  assumes "apply_operation op self = (r, self')"
  shows "\<exists>added. self' = self\<lparr>circuit := circuit self @ added\<rparr> \<and> list_all well_named added"
proof -
  have unchanged: "\<exists>added. self = self\<lparr>circuit := circuit self @ added\<rparr> \<and> list_all well_named added"
    by (intro exI [of _ "[]"]) simp
  consider (R) "name op = ''R''"
    | (B) "name op \<noteq> ''R''" "name op = ''BasisState''"
    | (H) "name op = ''Hadamard''"
    | (P) "name op \<in> {''PauliX'', ''PauliY'', ''PauliZ''}"
    | (M) "name op = ''MS''"
    | (other) "name op \<noteq> ''R''" "name op \<noteq> ''BasisState''" "name op \<noteq> ''Hadamard''"
        "name op \<notin> {''PauliX'', ''PauliY'', ''PauliZ''}" "name op \<noteq> ''MS''"
    by blast
  then show ?thesis
  proof cases
    case R
    show ?thesis
    proof (cases r)
      case (Some e)
      with assms R have "self' = self"
        by (auto simp: apply_operation_def Let_def split: sum.splits)
      with unchanged show ?thesis by simp
    next
      case None
      with assms R obtain p0 p1 where
        "self' = self\<lparr>circuit := circuit self @ [Gate2 ''R'' p0 p1 (wires op)]\<rparr>"
        by (auto simp: apply_operation_def Let_def split: sum.splits)
      then show ?thesis by (intro exI [of _ "[Gate2 ''R'' p0 p1 (wires op)]"]) simp
    qed
  next
    case B
    show ?thesis
    proof (cases "items (select_par op)")
      case (Inl e)
      with assms B have "self' = self" by (simp add: apply_operation_def Let_def)
      with unchanged show ?thesis by simp
    next
      case (Inr bits)
      with assms B have "basis_flips (zip bits (wires op)) self = (r, self')"
        by (simp add: apply_operation_def Let_def)
      then show ?thesis by (rule basis_flips_appends)
    qed
  next
    case H
    with assms have "append_op_to_queue ''RY'' (Val (Num (0.5 * pi))) (wires op) self = (r, self')"
      by (simp add: apply_operation_def Let_def)
    then show ?thesis by (rule append_appends) (simp add: operation_map_simps)
  next
    case P
    with assms have a: "append_op_to_queue (''R'' @ [last (name op)]) (Val (Num pi)) (wires op) self
        = (r, self')"
      by (auto simp: apply_operation_def Let_def)
    from P have "operation_map (''R'' @ [last (name op)]) \<noteq> Some None"
      by (auto simp: operation_map_simps)
    with a show ?thesis by (rule append_appends)
  next
    case M
    show ?thesis
    proof (cases "times_pi (select_par op)")
      case (Inl e)
      with assms M have "self' = self" by (simp add: apply_operation_def Let_def)
      with unchanged show ?thesis by simp
    next
      case (Inr p)
      with assms M have "append_op_to_queue ''MS'' p (wires op) self = (r, self')"
        by (simp add: apply_operation_def Let_def)
      then show ?thesis by (rule append_appends) (simp add: operation_map_simps)
    qed
  next
    case other
    with assms have a: "append_op_to_queue (name op) (select_par op) (wires op) self = (r, self')"
      by (simp add: apply_operation_def Let_def)
    from other have "operation_map (name op) \<noteq> Some None" by (intro operation_map_rest)
    with a show ?thesis by (rule append_appends)
  qed
qed

subsection \<open>What \<^verbatim>\<open>apply\<close> can do to the device and to the network\<close>

lemma apply_operations_appends:
  "apply_operations i ops self = (r, self') \<Longrightarrow>
     \<exists>added. self' = self\<lparr>circuit := circuit self @ added\<rparr> \<and> list_all well_named added"
proof (induction ops arbitrary: i self)
  case Nil
  then have "self' = self\<lparr>circuit := circuit self @ []\<rparr>" by simp
  then show ?case by (intro exI [of _ "[]"]) simp
next
  case (Cons op ops)
  show ?case
  proof (cases "i > 0 \<and> name op \<in> {''BasisState'', ''QubitStateVector''}")
    case True
    with Cons.prems have "self' = self\<lparr>circuit := circuit self @ []\<rparr>" by auto
    then show ?thesis by (intro exI [of _ "[]"]) simp
  next
    case False
    obtain r1 s1 where a: "apply_operation op self = (r1, s1)"
      by (cases "apply_operation op self")
    from apply_operation_appends [OF a] obtain added1
      where s1: "s1 = self\<lparr>circuit := circuit self @ added1\<rparr>" and w1: "list_all well_named added1"
      by blast
    show ?thesis
    proof (cases r1)
      case (Some e)
      with Cons.prems False a have "self' = s1" by auto
      with s1 w1 show ?thesis by blast
    next
      case None
      with Cons.prems False a have "apply_operations (Suc i) ops s1 = (r, self')" by auto
      from Cons.IH [OF this] obtain added2
        where s2: "self' = s1\<lparr>circuit := circuit s1 @ added2\<rparr>" and w2: "list_all well_named added2"
        by blast
      from s1 s2 have "self' = self\<lparr>circuit := circuit self @ (added1 @ added2)\<rparr>" by simp
      moreover from w1 w2 have "list_all well_named (added1 @ added2)" by simp
      ultimately show ?thesis by blast
    qed
  qed
qed

lemma apply_rotations_appends:
  "apply_rotations ops self = (r, self') \<Longrightarrow>
     \<exists>added. self' = self\<lparr>circuit := circuit self @ added\<rparr> \<and> list_all well_named added"
proof (induction ops arbitrary: self)
  case Nil
  then have "self' = self\<lparr>circuit := circuit self @ []\<rparr>" by simp
  then show ?case by (intro exI [of _ "[]"]) simp
next
  case (Cons op ops)
  obtain r1 s1 where a: "apply_operation op self = (r1, s1)"
    by (cases "apply_operation op self")
  from apply_operation_appends [OF a] obtain added1
    where s1: "s1 = self\<lparr>circuit := circuit self @ added1\<rparr>" and w1: "list_all well_named added1"
    by blast
  show ?case
  proof (cases r1)
    case (Some e)
    with Cons.prems a have "self' = s1" by auto
    with s1 w1 show ?thesis by blast
  next
    case None
    with Cons.prems a have "apply_rotations ops s1 = (r, self')" by auto
    from Cons.IH [OF this] obtain added2
      where s2: "self' = s1\<lparr>circuit := circuit s1 @ added2\<rparr>" and w2: "list_all well_named added2"
      by blast
    from s1 s2 have "self' = self\<lparr>circuit := circuit self @ (added1 @ added2)\<rparr>" by simp
    moreover from w1 w2 have "list_all well_named (added1 @ added2)" by simp
    ultimately show ?thesis by blast
  qed
qed

text \<open>The poll loop sends the same query each round and nothing else.\<close>

lemma poll_sent:
  "poll h q hdr jb nw = (out, nw') \<Longrightarrow>
     \<exists>k. sent nw' = sent nw @ replicate k \<lparr>http_method = HTTP_METHOD, target = h, body = q, headers = hdr\<rparr>
       \<and> pending nw' = drop k (pending nw)"
proof (induction h q hdr jb nw rule: poll.induct)
  case (1 h q hdr jb nw)
  let ?req = "\<lparr>http_method = HTTP_METHOD, target = h, body = q, headers = hdr\<rparr>"
  have stay: "nw' = nw \<Longrightarrow> ?case"
    by (intro exI [of _ 0]) simp
  show ?case
  proof (cases "job_status jb")
    case None
    with "1.prems" have "nw' = nw" by (simp add: poll.simps [of h q hdr jb nw])
    then show ?thesis by (rule stay)
  next
    case (Some s)
    show ?thesis
    proof (cases "s \<noteq> ''finished''")
      case False
      with "1.prems" Some have "nw' = nw" by (simp add: poll.simps [of h q hdr jb nw])
      then show ?thesis by (rule stay)
    next
      case True
      show ?thesis
      proof (cases "pending nw")
        case Nil
        with "1.prems" Some True have "nw' = nw"
          by (simp add: poll.simps [of h q hdr jb nw] submit_def)
        then show ?thesis by (rule stay)
      next
        case (Cons r rs)
        let ?nw1 = "nw\<lparr>sent := sent nw @ [?req], pending := rs\<rparr>"
        from Cons have sub: "submit HTTP_METHOD h q hdr nw = Some (r, ?nw1)"
          by (simp add: submit_def)
        show ?thesis
        proof (cases "json r")
          case None
          with "1.prems" Some True sub have "nw' = ?nw1"
            by (simp add: poll.simps [of h q hdr jb nw])
          with Cons show ?thesis by (intro exI [of _ 1]) simp
        next
          case (Some jb')
          with "1.prems" \<open>job_status jb = Some s\<close> True sub
          have p: "poll h q hdr jb' ?nw1 = (out, nw')"
            by (simp add: poll.simps [of h q hdr jb nw])
          from "1.IH" [OF \<open>job_status jb = Some s\<close> True sub refl Some p]
          obtain k where "sent nw' = sent ?nw1 @ replicate k ?req"
            and "pending nw' = drop k (pending ?nw1)" by blast
          with Cons show ?thesis
            by (intro exI [of _ "Suc k"]) (simp add: replicate_append_same)
        qed
      qed
    qed
  qed
qed

lemma run_job_device:
  "run_job dumps valid self nw = (out, self', nw') \<Longrightarrow>
     \<exists>smp. self' = self\<lparr>circuit_json := dumps (circuit self),
                           data := (data self)(''repetitions'' \<mapsto> JInt (shots self)),
                           samples := smp\<rparr>"
  by (auto simp: run_job_def Let_def serialize_def
      split: option.splits if_splits prod.splits outcome.splits
      intro: exI [of _ "samples self"])

lemma run_job_sent:
  assumes "run_job dumps valid self nw = (out, self', nw')"
  shows "\<exists>new. sent nw' = sent nw @ new \<and>
           list_all (\<lambda>r. headers r = header self \<and>
              (body r ''access_token'' = data self ''access_token'' \<or>
               body r ''access_token'' = Some (token (api_key self)))) new"
proof (cases "pending nw")
  case Nil
  with assms have "nw' = nw" by (simp add: run_job_def Let_def submit_def)
  then show ?thesis by (intro exI [of _ "[]"]) simp
next
  case (Cons resp rest)
  let ?s4 = "self\<lparr>circuit_json := serialize dumps (circuit self),
                    data := (data self)(''repetitions'' \<mapsto> JInt (shots self))\<rparr>"
  let ?req = "\<lparr>http_method = HTTP_METHOD, target = hostname self,
                body = (data self)(''repetitions'' \<mapsto> JInt (shots self),
                                   ''data'' \<mapsto> JStr (serialize dumps (circuit self))),
                headers = header self\<rparr>"
  let ?nw1 = "nw\<lparr>sent := sent nw @ [?req], pending := rest\<rparr>"
  have first: "headers ?req = header self \<and> body ?req ''access_token'' = data self ''access_token''"
    by simp
  have one: "nw' = ?nw1 \<Longrightarrow> ?thesis"
    by (intro exI [of _ "[?req]"]) simp
  from Cons have sub: "submit HTTP_METHOD (hostname ?s4)
      ((data ?s4)(''data'' \<mapsto> JStr (circuit_json ?s4))) (header ?s4) nw = Some (resp, ?nw1)"
    by (simp add: submit_def)
  show ?thesis
  proof (cases "valid resp")
    case False
    with assms sub have "nw' = ?nw1" by (simp add: run_job_def Let_def)
    then show ?thesis by (rule one)
  next
    case v: True
    show ?thesis
    proof (cases "json resp")
      case None
      with assms sub v have "nw' = ?nw1" by (simp add: run_job_def Let_def)
      then show ?thesis by (rule one)
    next
      case jb: (Some jb)
      show ?thesis
      proof (cases "job_id jb")
        case None
        with assms sub v jb have "nw' = ?nw1" by (simp add: run_job_def Let_def)
        then show ?thesis by (rule one)
      next
        case (Some i)
        let ?q = "[''id'' \<mapsto> JStr i, ''access_token'' \<mapsto> token (api_key self)]"
        let ?poll = "\<lparr>http_method = HTTP_METHOD, target = hostname self, body = ?q,
                       headers = header self\<rparr>"
        obtain pout nw2 where p: "poll (hostname self) ?q (header self) jb ?nw1 = (pout, nw2)"
          by (cases "poll (hostname self) ?q (header self) jb ?nw1")
        with assms sub v jb Some have "nw' = nw2"
          by (simp add: run_job_def Let_def split: outcome.splits option.splits)
        moreover from poll_sent [OF p] obtain k where
          "sent nw2 = sent ?nw1 @ replicate k ?poll" by blast
        ultimately have "sent nw' = sent nw @ (?req # replicate k ?poll)" by simp
        then show ?thesis
          by (intro exI [of _ "?req # replicate k ?poll"]) (simp add: list_all_iff)
      qed
    qed
  qed
qed

lemma apply_aqt_device:
  assumes "apply_aqt dumps valid ops rots self nw = (out, self', nw')"
  shows "num_wires self' = num_wires self \<and> shots self' = shots self
    \<and> initial_shots self' = initial_shots self \<and> api_key self' = api_key self
    \<and> header self' = header self \<and> hostname self' = hostname self
    \<and> data self' ''access_token'' = data self ''access_token''"
proof -
  obtain r1 s1 where 1: "apply_operations 0 ops self = (r1, s1)"
    by (cases "apply_operations 0 ops self")
  obtain r2 s2 where 2: "apply_rotations rots s1 = (r2, s2)"
    by (cases "apply_rotations rots s1")
  from apply_operations_appends [OF 1] obtain a1 where s1: "s1 = self\<lparr>circuit := circuit self @ a1\<rparr>"
    by blast
  from apply_rotations_appends [OF 2] obtain a2 where s2: "s2 = s1\<lparr>circuit := circuit s1 @ a2\<rparr>"
    by blast
  show ?thesis
  proof (cases r1)
    case (Some e)
    with assms 1 have "self' = s1" by (simp add: apply_aqt_def)
    with s1 show ?thesis by simp
  next
    case None
    note n1 = this
    show ?thesis
    proof (cases r2)
      case (Some e)
      with assms 1 2 n1 have "self' = s2" by (simp add: apply_aqt_def)
      with s1 s2 show ?thesis by simp
    next
      case None
      with assms 1 2 n1 have "run_job dumps valid s2 nw = (out, self', nw')"
        by (simp add: apply_aqt_def)
      from run_job_device [OF this] obtain smp where
        "self' = s2\<lparr>circuit_json := dumps (circuit s2),
                     data := (data s2)(''repetitions'' \<mapsto> JInt (shots s2)), samples := smp\<rparr>"
        by blast
      with s1 s2 show ?thesis by simp
    qed
  qed
qed

lemma apply_aqt_sent:
  assumes "apply_aqt dumps valid ops rots self nw = (out, self', nw')"
  shows "\<exists>new. sent nw' = sent nw @ new \<and>
           list_all (\<lambda>r. headers r = header self \<and>
              (body r ''access_token'' = data self ''access_token'' \<or>
               body r ''access_token'' = Some (token (api_key self)))) new"
proof -
  obtain r1 s1 where 1: "apply_operations 0 ops self = (r1, s1)"
    by (cases "apply_operations 0 ops self")
  obtain r2 s2 where 2: "apply_rotations rots s1 = (r2, s2)"
    by (cases "apply_rotations rots s1")
  from apply_operations_appends [OF 1] obtain a1 where s1: "s1 = self\<lparr>circuit := circuit self @ a1\<rparr>"
    by blast
  from apply_rotations_appends [OF 2] obtain a2 where s2: "s2 = s1\<lparr>circuit := circuit s1 @ a2\<rparr>"
    by blast
  have none: "nw' = nw \<Longrightarrow> ?thesis" by (intro exI [of _ "[]"]) simp
  show ?thesis
  proof (cases "r1 = None \<and> r2 = None")
    case False
    with assms 1 2 have "nw' = nw" by (auto simp: apply_aqt_def split: option.splits)
    then show ?thesis by (rule none)
  next
    case True
    with assms 1 2 have "run_job dumps valid s2 nw = (out, self', nw')"
      by (simp add: apply_aqt_def)
    from run_job_sent [OF this] s1 s2 show ?thesis by simp
  qed
qed

subsection \<open>Configuration\<close>

lemma set_api_configs_fails:
  "\<not> truthy (api_key self) \<Longrightarrow> \<not> truthy (getenv ''AQT_TOKEN'') \<Longrightarrow>
     fst (set_api_configs getenv self) = Some (ValueError ''No valid api key for AQT platform found.'')"
  by (simp add: set_api_configs_def py_or_def Let_def)

lemma set_api_configs_succeeds:
  assumes "truthy (api_key self) \<or> truthy (getenv ''AQT_TOKEN'')"
  shows "\<exists>d. set_api_configs getenv self = (None, d)
           \<and> configured (the (py_or (api_key self) (getenv ''AQT_TOKEN''))) d
           \<and> num_wires d = num_wires self \<and> shots d = shots self
           \<and> initial_shots d = initial_shots self \<and> circuit d = circuit self
           \<and> circuit_json d = circuit_json self \<and> samples d = samples self"
proof -
  from assms have t: "truthy (py_or (api_key self) (getenv ''AQT_TOKEN''))"
    by (auto simp: py_or_def)
  then obtain k where k: "py_or (api_key self) (getenv ''AQT_TOKEN'') = Some k" and "k \<noteq> []"
    by (cases "py_or (api_key self) (getenv ''AQT_TOKEN'')") auto
  then show ?thesis
    by (simp add: set_api_configs_def Let_def configured_def)
qed

lemma set_api_configs_keeps:
  "set_api_configs getenv self = (r, d) \<Longrightarrow>
     num_wires d = num_wires self \<and> shots d = shots self
     \<and> initial_shots d = initial_shots self \<and> circuit d = circuit self
     \<and> circuit_json d = circuit_json self \<and> samples d = samples self"
  by (auto simp: set_api_configs_def Let_def split: if_splits)

lemma init_Inr:
  "init getenv n s key = Inr d \<longleftrightarrow>
     1 \<le> s \<and> set_api_configs getenv
               \<lparr>num_wires = n, shots = s, initial_shots = s, api_key = key,
                circuit = [], circuit_json = [], samples = None,
                header = Map.empty, data = Map.empty, hostname = ([], [])\<rparr> = (None, d)"
  by (auto simp: init_def split: prod.splits option.splits)

subsection \<open>Unravelling and transposing\<close>

lemma unravel_index_in_range:
  assumes "xs \<noteq> []" and "\<forall>s\<in>set xs. 0 \<le> s \<and> s < 2 ^ n"
  shows "unravel_index xs n = Inr (map (\<lambda>k. map (\<lambda>s. (s div 2 ^ k) mod 2) xs) [0..<n])"
proof -
  from assms(2) have "filter (\<lambda>s. s < 0 \<or> 2 ^ n \<le> s) xs = []"
    by (auto simp: filter_empty_conv)
  with assms(1) show ?thesis by (simp add: unravel_index_def)
qed

lemma transpose_axes:
  assumes "0 < n"
  shows "transpose (map (\<lambda>k. map (\<lambda>s. f s k) xs) [0..<n]) = map (\<lambda>s. map (\<lambda>k. f s k) [0..<n]) xs"
proof -
  let ?axes = "map (\<lambda>k. map (\<lambda>s. f s k) xs) [0..<n]"
  have "transpose ?axes =
      map (\<lambda>i. map (\<lambda>j. ?axes ! j ! i) [0..<length ?axes]) [0..<length xs]"
  proof (rule transpose_rectangle)
    assume "?axes = []"
    with assms show "length xs = 0" by simp
  next
    fix i assume "i < length ?axes"
    then show "length (?axes ! i) = length xs" by simp
  qed
  also have "\<dots> = map (\<lambda>s. map (\<lambda>k. f s k) [0..<n]) xs"
    by (rule nth_equalityI) simp_all
  finally show ?thesis .
qed

subsection \<open>Where a \<open>DeviceError\<close> can come from\<close>

lemma apply_operations_append:
  "apply_operations i (pre @ post) self =
     (case apply_operations i pre self of
        (Some e, s) \<Rightarrow> (Some e, s)
      | (None, s) \<Rightarrow> apply_operations (i + length pre) post s)"
proof (induction pre arbitrary: i self)
  case Nil
  show ?case by simp
next
  case (Cons op pre)
  show ?case
    by (cases "apply_operation op self") (auto simp: Cons.IH split: option.splits prod.splits)
qed

lemma apply_operations_device_error:
  "apply_operations j ops self = (Some (DeviceError m), self') \<Longrightarrow>
     \<exists>i. i < length ops \<and> 0 < j + i
       \<and> name (ops ! i) \<in> {''BasisState'', ''QubitStateVector''}
       \<and> m = ''The operation '' @ name (ops ! i) @ '' is only supported at the beginning of a circuit.''
       \<and> apply_operations j (take i ops) self = (None, self')"
proof (induction ops arbitrary: j self)
  case Nil
  then show ?case by simp
next
  case (Cons op ops)
  show ?case
  proof (cases "j > 0 \<and> name op \<in> {''BasisState'', ''QubitStateVector''}")
    case True
    with Cons.prems have "self' = self"
      and "m = ''The operation '' @ name op @ '' is only supported at the beginning of a circuit.''"
      by auto
    with True show ?thesis by (intro exI [of _ 0]) simp
  next
    case False
    obtain r1 s1 where a: "apply_operation op self = (r1, s1)"
      by (cases "apply_operation op self")
    show ?thesis
    proof (cases r1)
      case (Some e)
      with Cons.prems False a have "e = DeviceError m" by auto
      with a Some apply_operation_no_device_error [of op self e s1] show ?thesis by simp
    next
      case None
      with Cons.prems False a have "apply_operations (Suc j) ops s1 = (Some (DeviceError m), self')"
        by auto
      from Cons.IH [OF this] obtain i where i: "i < length ops"
        and n: "name (ops ! i) \<in> {''BasisState'', ''QubitStateVector''}"
        and m: "m = ''The operation '' @ name (ops ! i) @ '' is only supported at the beginning of a circuit.''"
        and t: "apply_operations (Suc j) (take i ops) s1 = (None, self')" by blast
      from False a None t have "apply_operations j (take (Suc i) (op # ops)) self = (None, self')"
        by auto
      with i n m show ?thesis by (intro exI [of _ "Suc i"]) simp
    qed
  qed
qed

lemma apply_rotations_no_device_error:
  "apply_rotations ops self = (Some e, self') \<Longrightarrow> \<not> is_DeviceError e"
proof (induction ops arbitrary: self)
  case Nil
  then show ?case by simp
next
  case (Cons op ops)
  obtain r1 s1 where a: "apply_operation op self = (r1, s1)"
    by (cases "apply_operation op self")
  show ?case
  proof (cases r1)
    case (Some e1)
    with Cons.prems a have "e = e1" by simp
    with a Some show ?thesis using apply_operation_no_device_error [of op self e1 s1] by simp
  next
    case None
    with Cons.prems a have "apply_rotations ops s1 = (Some e, self')" by simp
    then show ?thesis by (rule Cons.IH)
  qed
qed

lemma poll_no_device_error:
  "poll h q hdr jb nw = (Raised e, nw') \<Longrightarrow> \<not> is_DeviceError e"
proof (induction h q hdr jb nw rule: poll.induct)
  case (1 h q hdr jb nw)
  from "1.prems" show ?case
    by (subst (asm) poll.simps)
       (auto split: option.splits if_splits prod.splits dest: "1.IH")
qed

lemma run_job_no_device_error:
  "run_job dumps valid self nw = (Raised e, self', nw') \<Longrightarrow> \<not> is_DeviceError e"
  by (auto simp: run_job_def Let_def raise_invalid_status_exception_def
      split: option.splits if_splits prod.splits outcome.splits dest: poll_no_device_error)

subsection \<open>Basis states, Hadamard and the Pauli gates\<close>

text \<open>
  Claim C6. A \<open>BasisState\<close> operation whose parameter is the array \<open>bits\<close> queues, for each
  pair of \<^verbatim>\<open>zip(bits, wires)\<close> whose bit equals 1, one entry \<^verbatim>\<open>["X", 1.0, [wire]]\<close>, in order,
  and nothing for the other bits; it raises nothing. With the bits \<open>[1, 0, 1]\<close> on the wires
  \<open>[0, 1, 2]\<close> and an empty buffer, the buffer afterwards holds exactly the two X entries
  on wire 0 and on wire 2, each with angle 1.
\<close>

theorem basis_state_flips:
  "apply_operation \<lparr>name = ''BasisState'', parameters = [Arr bits], wires = ws\<rparr> self =
     (None, self\<lparr>circuit := circuit self @
        map (\<lambda>(b, w). Gate (Some ''X'') (Num 1) [w]) (filter (\<lambda>(b, w). b = 1) (zip bits ws))\<rparr>)
   \<and> apply_operation \<lparr>name = ''BasisState'', parameters = [Arr [1, 0, 1]], wires = [0, 1, 2]\<rparr>
        (self\<lparr>circuit := []\<rparr>) =
     (None, self\<lparr>circuit := [Gate (Some ''X'') (Num 1) [0], Gate (Some ''X'') (Num 1) [2]]\<rparr>)"
proof -
  have general: "apply_operation \<lparr>name = ''BasisState'', parameters = [Arr bs], wires = vs\<rparr> d =
     (None, d\<lparr>circuit := circuit d @
        map (\<lambda>(b, w). Gate (Some ''X'') (Num 1) [w]) (filter (\<lambda>(b, w). b = 1) (zip bs vs))\<rparr>)"
    for bs vs d
    by (simp add: apply_operation_def select_par_def basis_flips_bits)
  show ?thesis
    using general [of "[1, 0, 1]" "[0, 1, 2]" "self\<lparr>circuit := []\<rparr>"]
    by (simp add: general)
qed

text \<open>
  Claim C7. Whatever its wires (and its parameters), a \<open>Hadamard\<close> operation queues
  exactly one entry \<^verbatim>\<open>["Y", 0.5, wires]\<close>, and \<open>PauliX\<close>, \<open>PauliY\<close>, \<open>PauliZ\<close> queue exactly one
  entry \<^verbatim>\<open>["X", 1.0, wires]\<close>, \<^verbatim>\<open>["Y", 1.0, wires]\<close>, \<^verbatim>\<open>["Z", 1.0, wires]\<close>.
\<close>

theorem hadamard_pauli_fixed_angles:
  "apply_operation \<lparr>name = ''Hadamard'', parameters = ps, wires = ws\<rparr> self =
     (None, self\<lparr>circuit := circuit self @ [Gate (Some ''Y'') (Num 0.5) ws]\<rparr>)
   \<and> apply_operation \<lparr>name = ''PauliX'', parameters = ps, wires = ws\<rparr> self =
     (None, self\<lparr>circuit := circuit self @ [Gate (Some ''X'') (Num 1) ws]\<rparr>)
   \<and> apply_operation \<lparr>name = ''PauliY'', parameters = ps, wires = ws\<rparr> self =
     (None, self\<lparr>circuit := circuit self @ [Gate (Some ''Y'') (Num 1) ws]\<rparr>)
   \<and> apply_operation \<lparr>name = ''PauliZ'', parameters = ps, wires = ws\<rparr> self =
     (None, self\<lparr>circuit := circuit self @ [Gate (Some ''Z'') (Num 1) ws]\<rparr>)"
  by (simp add: apply_operation_def append_num operation_map_simps)

subsection \<open>The angle convention\<close>




subsection \<open>Operations without a vendor gate\<close>

text \<open>
  Claim C3, as amended. An operation whose name is not a key of \<^verbatim>\<open>_operation_map\<close> fails when
  it is applied, leaving the device as it was: with a \<open>KeyError\<close> for its name when it has
  exactly one parameter, and with a \<open>TypeError\<close> otherwise (the division of \<^verbatim>\<open>None\<close> or of a
  list by \<open>\<pi>\<close> comes before the lookup). An operation whose name the map sends to \<^verbatim>\<open>None\<close>
  and that is not \<open>BasisState\<close> (Hadamard and the Pauli gates) is rewritten before the lookup
  and queues one well-formed entry. No translation raises a \<open>DeviceError\<close>, and every entry a
  translation appends has a gate name.
\<close>

theorem unmapped_operation_errors:
  "(operation_map (name op) = None \<longrightarrow>
      apply_operation op self =
        (Some (if length (parameters op) = 1 then KeyError (name op) else TypeError), self))
   \<and> (operation_map (name op) = Some None \<and> name op \<noteq> ''BasisState'' \<longrightarrow>
      (\<exists>g. apply_operation op self = (None, self\<lparr>circuit := circuit self @ [g]\<rparr>) \<and> well_named g))
   \<and> (apply_operation op self = (r, self') \<longrightarrow>
      (\<exists>added. self' = self\<lparr>circuit := circuit self @ added\<rparr> \<and> list_all well_named added)
      \<and> (\<forall>e. r = Some e \<longrightarrow> \<not> is_DeviceError e))"
proof (intro conjI impI)
  assume none: "operation_map (name op) = None"
  then have names: "name op \<noteq> ''R''" "name op \<noteq> ''BasisState''" "name op \<noteq> ''Hadamard''"
    "name op \<notin> {''PauliX'', ''PauliY'', ''PauliZ''}" "name op \<noteq> ''MS''"
    by (auto simp: operation_map_simps)
  then have a: "apply_operation op self =
      append_op_to_queue (name op) (select_par op) (wires op) self"
    by (simp add: apply_operation_def Let_def)
  show "apply_operation op self =
        (Some (if length (parameters op) = 1 then KeyError (name op) else TypeError), self)"
  proof (cases "length (parameters op) = 1")
    case True
    then have "select_par op = Val (parameters op ! 0)" by (simp add: select_par_def)
    moreover have "\<exists>q. div_pi (Val (parameters op ! 0)) = Inr q"
      by (cases "parameters op ! 0") simp_all
    ultimately show ?thesis using a none True
      by (auto simp: append_op_to_queue_def)
  next
    case False
    then have "select_par op = NonePar \<or> select_par op = ParList (parameters op)"
      by (simp add: select_par_def)
    then have "div_pi (select_par op) = Inl TypeError" by auto
    with a False show ?thesis by (simp add: append_op_to_queue_def)
  qed
next
  assume "operation_map (name op) = Some None \<and> name op \<noteq> ''BasisState''"
  then have "name op \<in> {''PauliX'', ''PauliY'', ''PauliZ'', ''Hadamard''}"
    using operation_map_cases [of "name op" None] by (auto simp: operation_map_simps)
  then consider "name op = ''Hadamard''" | "name op = ''PauliX''" | "name op = ''PauliY''"
    | "name op = ''PauliZ''" by blast
  then show "\<exists>g. apply_operation op self = (None, self\<lparr>circuit := circuit self @ [g]\<rparr>) \<and> well_named g"
  proof cases
    case 1
    then have "apply_operation op self =
      (None, self\<lparr>circuit := circuit self @ [Gate (Some ''Y'') (Num (0.5 * pi / pi)) (wires op)]\<rparr>)"
      by (simp add: apply_operation_def Let_def append_num operation_map_simps)
    then show ?thesis by (intro exI [of _ "Gate (Some ''Y'') (Num (0.5 * pi / pi)) (wires op)"]) simp
  next
    case 2
    then have "apply_operation op self =
      (None, self\<lparr>circuit := circuit self @ [Gate (Some ''X'') (Num (pi / pi)) (wires op)]\<rparr>)"
      by (simp add: apply_operation_def Let_def append_num operation_map_simps)
    then show ?thesis by (intro exI [of _ "Gate (Some ''X'') (Num (pi / pi)) (wires op)"]) simp
  next
    case 3
    then have "apply_operation op self =
      (None, self\<lparr>circuit := circuit self @ [Gate (Some ''Y'') (Num (pi / pi)) (wires op)]\<rparr>)"
      by (simp add: apply_operation_def Let_def append_num operation_map_simps)
    then show ?thesis by (intro exI [of _ "Gate (Some ''Y'') (Num (pi / pi)) (wires op)"]) simp
  next
    case 4
    then have "apply_operation op self =
      (None, self\<lparr>circuit := circuit self @ [Gate (Some ''Z'') (Num (pi / pi)) (wires op)]\<rparr>)"
      by (simp add: apply_operation_def Let_def append_num operation_map_simps)
    then show ?thesis by (intro exI [of _ "Gate (Some ''Z'') (Num (pi / pi)) (wires op)"]) simp
  qed
next
  assume "apply_operation op self = (r, self')"
  then show "\<exists>added. self' = self\<lparr>circuit := circuit self @ added\<rparr> \<and> list_all well_named added"
    by (rule apply_operation_appends)
next
  assume a: "apply_operation op self = (r, self')"
  show "\<forall>e. r = Some e \<longrightarrow> \<not> is_DeviceError e"
    using a apply_operation_no_device_error [of op self _ self'] by blast
qed

text \<open>
  The theorem at \<^verbatim>\<open>PhaseShift(0.5)\<close>, whose name is not a key of the map, and at \<open>PauliX\<close>,
  whose name the map sends to \<^verbatim>\<open>None\<close>.
\<close>

theorem unmapped_operation_errors_witness:
  "operation_map ''PhaseShift'' = None
   \<and> apply_operation \<lparr>name = ''PhaseShift'', parameters = [Num (1 / 2)], wires = [0]\<rparr> device3 =
       (Some (KeyError ''PhaseShift''), device3)
   \<and> operation_map ''PauliX'' = Some None
   \<and> (\<exists>g. apply_operation \<lparr>name = ''PauliX'', parameters = [], wires = [0]\<rparr> device3 =
          (None, device3\<lparr>circuit := circuit device3 @ [g]\<rparr>) \<and> well_named g)
   \<and> \<not> is_DeviceError (KeyError ''PhaseShift'')"
proof -
  have n: "operation_map ''PhaseShift'' = None" by (simp add: operation_map_def)
  have p: "operation_map ''PauliX'' = Some None" by (simp add: operation_map_def)
  from unmapped_operation_errors
    [of "\<lparr>name = ''PhaseShift'', parameters = [Num (1 / 2)], wires = [0]\<rparr>" device3
      "Some (KeyError ''PhaseShift'')" device3] n
  have 1: "apply_operation \<lparr>name = ''PhaseShift'', parameters = [Num (1 / 2)], wires = [0]\<rparr> device3 =
       (Some (KeyError ''PhaseShift''), device3)"
    and 3: "\<not> is_DeviceError (KeyError ''PhaseShift'')" by simp_all
  from unmapped_operation_errors
    [of "\<lparr>name = ''PauliX'', parameters = [], wires = [0]\<rparr>" device3 None device3] p
  have 2: "\<exists>g. apply_operation \<lparr>name = ''PauliX'', parameters = [], wires = [0]\<rparr> device3 =
          (None, device3\<lparr>circuit := circuit device3 @ [g]\<rparr>) \<and> well_named g" by simp
  from n p 1 2 3 show ?thesis by simp
qed

text \<open>
  The claim as stated fails: \<^verbatim>\<open>PhaseShift(0.5)\<close> raises a \<open>KeyError\<close> and \<open>CNOT\<close> a
  \<open>TypeError\<close>, neither of them a \<open>DeviceError\<close>; and \<open>PauliX\<close>, which the map sends to
  \<^verbatim>\<open>None\<close>, does not fail at all.
\<close>

theorem unmapped_operation_no_device_error:
  "operation_map ''PhaseShift'' = None
   \<and> apply_operation \<lparr>name = ''PhaseShift'', parameters = [Num (1 / 2)], wires = [0]\<rparr> device3 =
       (Some (KeyError ''PhaseShift''), device3)
   \<and> \<not> is_DeviceError (KeyError ''PhaseShift'')
   \<and> operation_map ''CNOT'' = None
   \<and> apply_operation \<lparr>name = ''CNOT'', parameters = [], wires = [0, 1]\<rparr> device3 =
       (Some TypeError, device3)
   \<and> \<not> is_DeviceError TypeError
   \<and> operation_map ''PauliX'' = Some None
   \<and> apply_operation \<lparr>name = ''PauliX'', parameters = [], wires = [0]\<rparr> device3 =
       (None, device3\<lparr>circuit := [Gate (Some ''X'') (Num 1) [0]]\<rparr>)"
  by (simp add: apply_operation_def select_par_def append_op_to_queue_def operation_map_def
      device3_def)

subsection \<open>Reset\<close>

text \<open>
  Claim C5. Whatever the device was before and whether or not \<^verbatim>\<open>reset()\<close> raises, the device
  it leaves has an empty circuit buffer, an empty serialised circuit, no cached samples, and the
  shot count \<^verbatim>\<open>_initial_shots\<close>; that attribute is the shot count given to the constructor, and
  neither \<^verbatim>\<open>reset\<close> nor \<^verbatim>\<open>apply\<close> changes it.
\<close>

theorem reset_clears:
  "circuit (snd (reset getenv self)) = []
   \<and> circuit_json (snd (reset getenv self)) = []
   \<and> samples (snd (reset getenv self)) = None
   \<and> shots (snd (reset getenv self)) = initial_shots self
   \<and> initial_shots (snd (reset getenv self)) = initial_shots self
   \<and> (init getenv n s key = Inr d \<longrightarrow> initial_shots d = s \<and> shots d = s)
   \<and> (apply_aqt dumps valid ops rots self nw = (out, self', nw') \<longrightarrow>
        initial_shots self' = initial_shots self)"
proof -
  let ?cleared = "self\<lparr>shots := initial_shots self, circuit := [], circuit_json := [],
                       samples := None\<rparr>"
  obtain r d' where sc: "set_api_configs getenv ?cleared = (r, d')"
    by (cases "set_api_configs getenv ?cleared")
  then have "reset getenv self = (r, d')" by (simp add: reset_def)
  with set_api_configs_keeps [OF sc]
  have 1: "circuit (snd (reset getenv self)) = []
   \<and> circuit_json (snd (reset getenv self)) = []
   \<and> samples (snd (reset getenv self)) = None
   \<and> shots (snd (reset getenv self)) = initial_shots self
   \<and> initial_shots (snd (reset getenv self)) = initial_shots self" by simp
  have 2: "init getenv n s key = Inr d \<longrightarrow> initial_shots d = s \<and> shots d = s"
  proof
    let ?fresh = "\<lparr>num_wires = n, shots = s, initial_shots = s, api_key = key,
              circuit = [], circuit_json = [], samples = None,
              header = Map.empty, data = Map.empty, hostname = ([], [])\<rparr>"
    assume i: "init getenv n s key = Inr d"
    then have sc0: "set_api_configs getenv ?fresh = (None, d)" by (simp add: init_Inr)
    from set_api_configs_keeps [OF sc0] show "initial_shots d = s \<and> shots d = s" by simp
  qed
  have 3: "apply_aqt dumps valid ops rots self nw = (out, self', nw') \<longrightarrow>
        initial_shots self' = initial_shots self"
    using apply_aqt_device [of dumps valid ops rots self nw out self' nw'] by blast
  from 1 2 3 show ?thesis by blast
qed

text \<open>
  Resetting the used three-wire device gives back the device as constructed, with 200 shots;
  \<^verbatim>\<open>apply\<close> on it (here with no operations and a gateway that does not answer) keeps
  \<^verbatim>\<open>_initial_shots\<close>.
\<close>

theorem reset_clears_witness:
  "reset no_token used_device = (None, device3)
   \<and> init no_token 3 200 (Some ''key'') = Inr device3
   \<and> initial_shots device3 = 200 \<and> shots device3 = 200
   \<and> apply_aqt tally_dumps only_200 [] [] device3 offline =
        (Waiting, device3\<lparr>circuit_json := [], data := (data device3)(''repetitions'' \<mapsto> JInt 200)\<rparr>, offline)
   \<and> initial_shots (device3\<lparr>circuit_json := [], data := (data device3)(''repetitions'' \<mapsto> JInt 200)\<rparr>)
        = initial_shots device3"
proof -
  have r: "reset no_token used_device = (None, device3)"
    by (simp add: reset_def used_device_def device3_def set_api_configs_def py_or_def
        no_token_def Let_def)
  have i: "init no_token 3 200 (Some ''key'') = Inr device3"
    by (simp add: init_def set_api_configs_def py_or_def device3_def)
  have a: "apply_aqt tally_dumps only_200 [] [] device3 offline =
        (Waiting, device3\<lparr>circuit_json := [], data := (data device3)(''repetitions'' \<mapsto> JInt 200)\<rparr>, offline)"
    by (simp add: apply_aqt_def run_job_def Let_def submit_def offline_def serialize_def
        tally_dumps_def device3_def)
  from reset_clears [of no_token used_device 3 200 "Some ''key''" device3]
       reset_clears [of no_token device3 3 200 "Some ''key''" device3 tally_dumps only_200 "[]" "[]"
         offline Waiting
         "device3\<lparr>circuit_json := [], data := (data device3)(''repetitions'' \<mapsto> JInt 200)\<rparr>" offline]
       r i a
  show ?thesis by simp
qed

subsection \<open>The API key\<close>

text \<open>
  Claim C9, as amended. With a number of shots the base class accepts (at least 1; below
  that its constructor has already raised): when the \<^verbatim>\<open>api_key\<close> argument is falsy (\<^verbatim>\<open>None\<close> or
  empty) and \<^verbatim>\<open>AQT_TOKEN\<close> is unset (or empty), the constructor raises the \<open>ValueError\<close> of
  \<^verbatim>\<open>set_api_configs\<close> and constructs no device; it does not take the network, so no request
  can precede the error. When the argument or the variable gives a key, construction
  succeeds and leaves the device configured with it (the argument when it is truthy, the
  variable otherwise): it is the API key, the subscription header and the access token
  of the request data. \<^verbatim>\<open>reset()\<close> tests the key that construction cached: on a constructed
  device, and on any configured one, it raises nothing and keeps the key, whatever the
  environment is by then. \<^verbatim>\<open>apply\<close> keeps a device configured, and every request it sends
  carries the key in its header and in its body.
\<close>

theorem api_key_configuration:
  "(s < 1 \<longrightarrow> init getenv n s key = Inl (DeviceError []))
   \<and> (1 \<le> s \<and> \<not> truthy key \<and> \<not> truthy (getenv ''AQT_TOKEN'') \<longrightarrow>
      init getenv n s key = Inl (ValueError ''No valid api key for AQT platform found.''))
   \<and> (1 \<le> s \<and> (truthy key \<or> truthy (getenv ''AQT_TOKEN'')) \<longrightarrow>
      (\<exists>d. init getenv n s key = Inr d \<and> configured (the (py_or key (getenv ''AQT_TOKEN''))) d))
   \<and> (init getenv n s key = Inr d \<longrightarrow>
      (\<exists>d'. reset getenv' d = (None, d')
          \<and> configured (the (py_or key (getenv ''AQT_TOKEN''))) d'))
   \<and> (configured k self \<longrightarrow> (\<exists>d'. reset getenv' self = (None, d') \<and> configured k d'))
   \<and> (configured k self \<and> apply_aqt dumps valid ops rots self nw = (out, self', nw') \<longrightarrow>
      configured k self'
      \<and> (\<exists>new. sent nw' = sent nw @ new
            \<and> list_all (\<lambda>r. headers r = [''Ocp-Apim-Subscription-Key'' \<mapsto> k]
                           \<and> body r ''access_token'' = Some (JStr k)) new))"
proof -
  let ?fresh = "\<lparr>num_wires = n, shots = s, initial_shots = s, api_key = key,
              circuit = [], circuit_json = [], samples = None,
              header = Map.empty, data = Map.empty, hostname = ([], [])\<rparr>"
  have resets: "\<exists>d'. reset env c = (None, d') \<and> configured j d'" if c: "configured j c" for env j c
  proof -
    let ?cleared = "c\<lparr>shots := initial_shots c, circuit := [], circuit_json := [],
                       samples := None\<rparr>"
    from c have k: "api_key ?cleared = Some j" and "j \<noteq> []" by (simp_all add: configured_def)
    then have "truthy (api_key ?cleared) \<or> truthy (env ''AQT_TOKEN'')" by simp
    from set_api_configs_succeeds [where self = ?cleared and getenv = env, OF this] k \<open>j \<noteq> []\<close>
    show ?thesis by (auto simp: reset_def py_or_def)
  qed
  have 0: "s < 1 \<longrightarrow> init getenv n s key = Inl (DeviceError [])"
    by (simp add: init_def)
  have 1: "1 \<le> s \<and> \<not> truthy key \<and> \<not> truthy (getenv ''AQT_TOKEN'') \<longrightarrow>
      init getenv n s key = Inl (ValueError ''No valid api key for AQT platform found.'')"
  proof
    assume a: "1 \<le> s \<and> \<not> truthy key \<and> \<not> truthy (getenv ''AQT_TOKEN'')"
    then have "fst (set_api_configs getenv ?fresh)
        = Some (ValueError ''No valid api key for AQT platform found.'')"
      by (intro set_api_configs_fails) simp_all
    with a show "init getenv n s key = Inl (ValueError ''No valid api key for AQT platform found.'')"
      by (cases "set_api_configs getenv ?fresh") (simp add: init_def)
  qed
  have 2: "1 \<le> s \<and> (truthy key \<or> truthy (getenv ''AQT_TOKEN'')) \<longrightarrow>
      (\<exists>d. init getenv n s key = Inr d \<and> configured (the (py_or key (getenv ''AQT_TOKEN''))) d)"
  proof
    assume a: "1 \<le> s \<and> (truthy key \<or> truthy (getenv ''AQT_TOKEN''))"
    then have "truthy (api_key ?fresh) \<or> truthy (getenv ''AQT_TOKEN'')" by simp
    from set_api_configs_succeeds [where self = ?fresh and getenv = getenv, OF this] a
    show "\<exists>d. init getenv n s key = Inr d \<and> configured (the (py_or key (getenv ''AQT_TOKEN''))) d"
      by (auto simp: init_Inr)
  qed
  have 3: "init getenv n s key = Inr d \<longrightarrow>
      (\<exists>d'. reset getenv' d = (None, d')
          \<and> configured (the (py_or key (getenv ''AQT_TOKEN''))) d')"
  proof
    assume i: "init getenv n s key = Inr d"
    then have s: "1 \<le> s" and sc: "set_api_configs getenv ?fresh = (None, d)"
      by (simp_all add: init_Inr)
    have "truthy key \<or> truthy (getenv ''AQT_TOKEN'')"
    proof (rule ccontr)
      assume "\<not> (truthy key \<or> truthy (getenv ''AQT_TOKEN''))"
      with 1 s i show False by simp
    qed
    with 2 s i have "configured (the (py_or key (getenv ''AQT_TOKEN''))) d" by auto
    then show "\<exists>d'. reset getenv' d = (None, d')
          \<and> configured (the (py_or key (getenv ''AQT_TOKEN''))) d'" by (rule resets)
  qed
  have 4: "configured k self \<longrightarrow> (\<exists>d'. reset getenv' self = (None, d') \<and> configured k d')"
    using resets by blast
  have 5: "configured k self \<and> apply_aqt dumps valid ops rots self nw = (out, self', nw') \<longrightarrow>
      configured k self'
      \<and> (\<exists>new. sent nw' = sent nw @ new
            \<and> list_all (\<lambda>r. headers r = [''Ocp-Apim-Subscription-Key'' \<mapsto> k]
                           \<and> body r ''access_token'' = Some (JStr k)) new)"
  proof (intro impI conjI)
    assume a: "configured k self \<and> apply_aqt dumps valid ops rots self nw = (out, self', nw')"
    then have c: "configured k self"
      and ap: "apply_aqt dumps valid ops rots self nw = (out, self', nw')" by simp_all
    from apply_aqt_device [OF ap] c show "configured k self'"
      by (simp add: configured_def)
    from apply_aqt_sent [OF ap] obtain new where
      new: "sent nw' = sent nw @ new"
      and all: "list_all (\<lambda>r. headers r = header self \<and>
              (body r ''access_token'' = data self ''access_token'' \<or>
               body r ''access_token'' = Some (token (api_key self)))) new" by blast
    from c have "header self = [''Ocp-Apim-Subscription-Key'' \<mapsto> k]"
      and "data self ''access_token'' = Some (JStr k)"
      and "Some (token (api_key self)) = Some (JStr k)"
      by (simp_all add: configured_def)
    with all have "list_all (\<lambda>r. headers r = [''Ocp-Apim-Subscription-Key'' \<mapsto> k]
                           \<and> body r ''access_token'' = Some (JStr k)) new"
      by (auto simp: list_all_iff)
    with new show "\<exists>new. sent nw' = sent nw @ new
            \<and> list_all (\<lambda>r. headers r = [''Ocp-Apim-Subscription-Key'' \<mapsto> k]
                           \<and> body r ''access_token'' = Some (JStr k)) new" by blast
  qed
  from 0 1 2 3 4 5 show ?thesis by blast
qed

text \<open>
  The theorem for a shot count of 0, with and without \<^verbatim>\<open>AQT_TOKEN\<close>, with and without the
  argument, for \<^verbatim>\<open>reset\<close> on the device constructed from the variable once the variable is
  gone and on the used device, and for \<^verbatim>\<open>apply\<close> on the three-wire device against the
  refusing gateway: the one request it sends carries the key.
\<close>

theorem api_key_configuration_witness:
  "init no_token 3 0 (Some ''key'') = Inl (DeviceError [])
   \<and> init no_token 3 200 None = Inl (ValueError ''No valid api key for AQT platform found.'')
   \<and> (\<exists>d. init with_token 3 200 None = Inr d \<and> configured ''token'' d)
   \<and> (\<exists>d. init no_token 3 200 (Some ''key'') = Inr d \<and> configured ''key'' d)
   \<and> init with_token 3 200 None = Inr token_device
   \<and> (\<exists>d'. reset no_token token_device = (None, d') \<and> configured ''token'' d')
   \<and> configured ''key'' used_device
   \<and> (\<exists>d'. reset no_token used_device = (None, d') \<and> configured ''key'' d')
   \<and> configured ''key'' device3
   \<and> apply_aqt tally_dumps only_200 [] [] device3 refusing =
       (Raised (InvalidStatus 500 ''error''),
        device3\<lparr>circuit_json := [], data := (data device3)(''repetitions'' \<mapsto> JInt 200)\<rparr>,
        \<lparr>sent = [\<lparr>http_method = ''PUT'', target = (BASE_HOSTNAME, TARGET_PATH),
                   body = (data device3)(''repetitions'' \<mapsto> JInt 200, ''data'' \<mapsto> JStr []),
                   headers = header device3\<rparr>],
         pending = []\<rparr>)
   \<and> (\<exists>new. [\<lparr>http_method = ''PUT'', target = (BASE_HOSTNAME, TARGET_PATH),
                body = (data device3)(''repetitions'' \<mapsto> JInt 200, ''data'' \<mapsto> JStr []),
                headers = header device3\<rparr>] = sent refusing @ new
         \<and> list_all (\<lambda>r. headers r = [''Ocp-Apim-Subscription-Key'' \<mapsto> ''key'']
                        \<and> body r ''access_token'' = Some (JStr ''key'')) new)"
proof -
  have z: "init no_token 3 0 (Some ''key'') = Inl (DeviceError [])"
    using api_key_configuration [where s = 0 and getenv = no_token and n = 3 and key = "Some ''key''"]
    by simp
  have a: "init no_token 3 200 None = Inl (ValueError ''No valid api key for AQT platform found.'')"
    using api_key_configuration [where key = None and getenv = no_token and n = 3 and s = 200]
    by (simp add: no_token_def)
  have c: "\<exists>d. init with_token 3 200 None = Inr d \<and> configured ''token'' d"
    using api_key_configuration [where key = None and getenv = with_token and n = 3 and s = 200]
    by (simp add: with_token_def py_or_def)
  have d: "\<exists>d. init no_token 3 200 (Some ''key'') = Inr d \<and> configured ''key'' d"
    using api_key_configuration [where key = "Some ''key''" and getenv = no_token and n = 3 and s = 200]
    by (simp add: py_or_def)
  have t: "init with_token 3 200 None = Inr token_device"
    by (simp add: init_def set_api_configs_def py_or_def with_token_def token_device_def)
  have e: "\<exists>d'. reset no_token token_device = (None, d') \<and> configured ''token'' d'"
    using api_key_configuration [where key = None and getenv = with_token and n = 3 and s = 200
        and d = token_device and getenv' = no_token] t
    by (simp add: with_token_def py_or_def)
  have u: "configured ''key'' used_device"
    by (simp add: configured_def used_device_def device3_def)
  have r: "\<exists>d'. reset no_token used_device = (None, d') \<and> configured ''key'' d'"
    using api_key_configuration [where k = "''key''" and self = used_device and getenv' = no_token] u
    by simp
  have f: "configured ''key'' device3"
    by (simp add: configured_def device3_def)
  have g: "apply_aqt tally_dumps only_200 [] [] device3 refusing =
       (Raised (InvalidStatus 500 ''error''),
        device3\<lparr>circuit_json := [], data := (data device3)(''repetitions'' \<mapsto> JInt 200)\<rparr>,
        \<lparr>sent = [\<lparr>http_method = ''PUT'', target = (BASE_HOSTNAME, TARGET_PATH),
                   body = (data device3)(''repetitions'' \<mapsto> JInt 200, ''data'' \<mapsto> JStr []),
                   headers = header device3\<rparr>],
         pending = []\<rparr>)"
    by (simp add: apply_aqt_def run_job_def Let_def submit_def refusing_def serialize_def
        tally_dumps_def only_200_def raise_invalid_status_exception_def HTTP_METHOD_def device3_def)
  have h: "\<exists>new. [\<lparr>http_method = ''PUT'', target = (BASE_HOSTNAME, TARGET_PATH),
                body = (data device3)(''repetitions'' \<mapsto> JInt 200, ''data'' \<mapsto> JStr []),
                headers = header device3\<rparr>] = sent refusing @ new
         \<and> list_all (\<lambda>r. headers r = [''Ocp-Apim-Subscription-Key'' \<mapsto> ''key'']
                        \<and> body r ''access_token'' = Some (JStr ''key'')) new"
    using api_key_configuration [where k = "''key''" and self = device3 and dumps = tally_dumps
        and valid = only_200 and ops = "[]" and rots = "[]" and nw = refusing
        and out = "Raised (InvalidStatus 500 ''error'')"
        and self' = "device3\<lparr>circuit_json := [], data := (data device3)(''repetitions'' \<mapsto> JInt 200)\<rparr>"
        and nw' = "\<lparr>sent = [\<lparr>http_method = ''PUT'', target = (BASE_HOSTNAME, TARGET_PATH),
                   body = (data device3)(''repetitions'' \<mapsto> JInt 200, ''data'' \<mapsto> JStr []),
                   headers = header device3\<rparr>],
         pending = []\<rparr>"] f g
    by simp
  from z a c d t e u r f g h show ?thesis by blast
qed

text \<open>
  The claim as stated fails for \<^verbatim>\<open>reset()\<close>: a device constructed without the argument while
  \<^verbatim>\<open>AQT_TOKEN\<close> was set has cached the key, and \<^verbatim>\<open>reset()\<close> on it raises nothing once the
  variable is unset.
\<close>

theorem reset_after_token_removed:
  "init with_token 3 200 None = Inr token_device
   \<and> no_token ''AQT_TOKEN'' = None
   \<and> reset no_token token_device = (None, token_device)"
  by (simp add: init_def reset_def set_api_configs_def py_or_def with_token_def no_token_def
      token_device_def)

subsection \<open>Samples\<close>

text \<open>
  Claim C8. When the cached samples are a non-empty list of integers in range for the
  number of wires (at least one), \<^verbatim>\<open>generate_samples()\<close> returns one row per shot, in the
  order of the samples, each row with one bit per wire, wire \<open>k\<close> holding bit \<open>k\<close> of the
  sample, least significant bit first. On three wires the row of a sample 5 is \<open>[1, 0, 1]\<close>.
\<close>

theorem generate_samples_bits:
  assumes "samples self = Some xs" and "xs \<noteq> []" and "0 < num_wires self"
    and "\<forall>s\<in>set xs. 0 \<le> s \<and> s < 2 ^ num_wires self"
  shows "\<exists>rows. generate_samples self = Inr rows
    \<and> rows = map (\<lambda>s. map (\<lambda>k. (s div 2 ^ k) mod 2) [0..<num_wires self]) xs
    \<and> length rows = length xs
    \<and> (\<forall>row\<in>set rows. length row = num_wires self)
    \<and> (num_wires self = 3 \<longrightarrow> (\<forall>i<length xs. xs ! i = 5 \<longrightarrow> rows ! i = [1, 0, 1]))"
proof -
  let ?n = "num_wires self"
  let ?rows = "map (\<lambda>s. map (\<lambda>k. (s div 2 ^ k) mod 2) [0..<?n]) xs"
  from assms(3) have ne: "map (\<lambda>k. map (\<lambda>s. (s div 2 ^ k) mod 2) xs) [0..<?n] \<noteq> []" by simp
  have "generate_samples self = Inr ?rows"
    using assms(1) unravel_index_in_range [OF assms(2) assms(4)] ne
      transpose_axes [OF assms(3), of "\<lambda>s k. (s div 2 ^ k) mod 2" xs]
    by (simp add: generate_samples_def)
  moreover have "\<forall>row\<in>set ?rows. length row = ?n" by simp
  moreover have "?n = 3 \<longrightarrow> (\<forall>i<length xs. xs ! i = 5 \<longrightarrow> ?rows ! i = [1, 0, 1])"
  proof (intro impI allI)
    fix i assume n: "?n = 3" and i: "i < length xs" and x: "xs ! i = 5"
    have "[0..<3] = [0, 1, 2]" by (simp add: upt_rec)
    with n i x show "?rows ! i = [1, 0, 1]" by simp
  qed
  ultimately show ?thesis by simp
qed

text \<open>The samples \<open>[5, 6]\<close> and \<open>[5]\<close> on three wires.\<close>

theorem generate_samples_bits_witness:
  "samples used_device = Some [5, 6] \<and> num_wires used_device = 3
   \<and> generate_samples used_device = Inr [[1, 0, 1], [0, 1, 1]]
   \<and> generate_samples (device3\<lparr>samples := Some [5]\<rparr>) = Inr [[1, 0, 1]]"
proof -
  have u: "samples used_device = Some [5, 6]" "num_wires used_device = 3"
    by (simp_all add: used_device_def device3_def)
  have 3: "[0..<3] = [0, 1, 2]" by (simp add: upt_rec)
  have a: "generate_samples used_device = Inr [[1, 0, 1], [0, 1, 1]]"
    using generate_samples_bits [of used_device "[5, 6]"] u 3 by simp
  have d: "samples (device3\<lparr>samples := Some [5]\<rparr>) = Some [5]"
    "num_wires (device3\<lparr>samples := Some [5]\<rparr>) = 3"
    by (simp_all add: device3_def)
  have b: "generate_samples (device3\<lparr>samples := Some [5]\<rparr>) = Inr [[1, 0, 1]]"
    using generate_samples_bits [of "device3\<lparr>samples := Some [5]\<rparr>" "[5]"] d 3 by simp
  from u a b show ?thesis by simp
qed

subsection \<open>State preparation after the first position\<close>

text \<open>
  Claim C2, as amended. When the operations passed to \<^verbatim>\<open>apply\<close> have a \<open>BasisState\<close> or
  \<open>QubitStateVector\<close> at a position other than the first, \<^verbatim>\<open>apply\<close> raises an exception and
  sends no request. The exception is the operation-ordering \<open>DeviceError\<close> naming that
  operation when the loop gets through the operations before it without raising;
  otherwise it is the exception the loop raised at the earlier operation, and the device
  is as the loop left it there.
\<close>

theorem state_preparation_not_first:
  "ops = pre @ op # post \<and> pre \<noteq> [] \<and> name op \<in> {''BasisState'', ''QubitStateVector''} \<longrightarrow>
     (\<exists>e self'. apply_aqt dumps valid ops rots self nw = (Raised e, self', nw))
     \<and> (apply_operations 0 pre self = (None, self1) \<longrightarrow>
          apply_aqt dumps valid ops rots self nw =
            (Raised (DeviceError (''The operation '' @ name op
                                    @ '' is only supported at the beginning of a circuit.'')),
             self1, nw))
     \<and> (apply_operations 0 pre self = (Some e1, self1) \<longrightarrow>
          apply_aqt dumps valid ops rots self nw = (Raised e1, self1, nw))"
proof (intro impI)
  assume a: "ops = pre @ op # post \<and> pre \<noteq> [] \<and> name op \<in> {''BasisState'', ''QubitStateVector''}"
  then have len: "0 < length pre" by simp
  obtain r1 s1 where p: "apply_operations 0 pre self = (r1, s1)"
    by (cases "apply_operations 0 pre self")
  have stop: "apply_operations (length pre) (op # post) s =
      (Some (DeviceError (''The operation '' @ name op
                            @ '' is only supported at the beginning of a circuit.'')), s)" for s
    using a len by auto
  have ordered: "r1 = None \<Longrightarrow> apply_aqt dumps valid ops rots self nw =
      (Raised (DeviceError (''The operation '' @ name op
                              @ '' is only supported at the beginning of a circuit.'')), s1, nw)"
    using a p stop [of s1] by (simp add: apply_aqt_def apply_operations_append)
  have earlier: "r1 = Some e \<Longrightarrow> apply_aqt dumps valid ops rots self nw = (Raised e, s1, nw)" for e
    using a p by (simp add: apply_aqt_def apply_operations_append)
  have 1: "\<exists>e self'. apply_aqt dumps valid ops rots self nw = (Raised e, self', nw)"
    using ordered earlier by (cases r1) blast+
  have 2: "apply_operations 0 pre self = (None, self1) \<longrightarrow>
          apply_aqt dumps valid ops rots self nw =
            (Raised (DeviceError (''The operation '' @ name op
                                    @ '' is only supported at the beginning of a circuit.'')),
             self1, nw)"
    using ordered p by auto
  have 3: "apply_operations 0 pre self = (Some e1, self1) \<longrightarrow>
          apply_aqt dumps valid ops rots self nw = (Raised e1, self1, nw)"
    using earlier p by auto
  from 1 2 3 show "(\<exists>e self'. apply_aqt dumps valid ops rots self nw = (Raised e, self', nw))
     \<and> (apply_operations 0 pre self = (None, self1) \<longrightarrow>
          apply_aqt dumps valid ops rots self nw =
            (Raised (DeviceError (''The operation '' @ name op
                                    @ '' is only supported at the beginning of a circuit.'')),
             self1, nw))
     \<and> (apply_operations 0 pre self = (Some e1, self1) \<longrightarrow>
          apply_aqt dumps valid ops rots self nw = (Raised e1, self1, nw))" by blast
qed

text \<open>
  \<open>PauliX\<close> followed by \<open>BasisState\<close> on the three-wire device: the ordering error, with
  the gateway's answer still pending. \<open>CNOT\<close>, which has no parameter to divide, followed by
  \<open>BasisState\<close>: the \<open>TypeError\<close> of the first operation.
\<close>

theorem state_preparation_not_first_witness:
  "apply_operations 0 [\<lparr>name = ''PauliX'', parameters = [], wires = [0]\<rparr>] device3 =
     (None, device3\<lparr>circuit := [Gate (Some ''X'') (Num 1) [0]]\<rparr>)
   \<and> apply_aqt tally_dumps only_200
        [\<lparr>name = ''PauliX'', parameters = [], wires = [0]\<rparr>,
         \<lparr>name = ''BasisState'', parameters = [Arr [1]], wires = [1]\<rparr>] [] device3 refusing =
       (Raised (DeviceError ''The operation BasisState is only supported at the beginning of a circuit.''),
        device3\<lparr>circuit := [Gate (Some ''X'') (Num 1) [0]]\<rparr>, refusing)
   \<and> apply_operations 0 [\<lparr>name = ''CNOT'', parameters = [], wires = [0, 1]\<rparr>] device3 =
     (Some TypeError, device3)
   \<and> apply_aqt tally_dumps only_200
        [\<lparr>name = ''CNOT'', parameters = [], wires = [0, 1]\<rparr>,
         \<lparr>name = ''BasisState'', parameters = [Arr [1]], wires = [1]\<rparr>] [] device3 refusing =
       (Raised TypeError, device3, refusing)"
proof -
  let ?x = "\<lparr>name = ''PauliX'', parameters = [], wires = [0]\<rparr>"
  let ?c = "\<lparr>name = ''CNOT'', parameters = [], wires = [0, 1]\<rparr>"
  let ?b = "\<lparr>name = ''BasisState'', parameters = [Arr [1]], wires = [1]\<rparr>"
  let ?d = "device3\<lparr>circuit := [Gate (Some ''X'') (Num 1) [0]]\<rparr>"
  have p: "apply_operations 0 [?x] device3 = (None, ?d)"
    by (simp add: apply_operation_def append_op_to_queue_def operation_map_def device3_def)
  have q: "apply_operations 0 [?c] device3 = (Some TypeError, device3)"
    by (simp add: apply_operation_def select_par_def append_op_to_queue_def operation_map_def)
  from state_preparation_not_first
    [where ops = "[?x, ?b]" and pre = "[?x]" and op = ?b and post = "[]" and dumps = tally_dumps
      and valid = only_200 and rots = "[]" and self = device3 and nw = refusing and ?self1.0 = ?d] p
  have 1: "apply_aqt tally_dumps only_200 [?x, ?b] [] device3 refusing =
       (Raised (DeviceError ''The operation BasisState is only supported at the beginning of a circuit.''),
        ?d, refusing)" by simp
  from state_preparation_not_first
    [where ops = "[?c, ?b]" and pre = "[?c]" and op = ?b and post = "[]" and dumps = tally_dumps
      and valid = only_200 and rots = "[]" and self = device3 and nw = refusing
      and ?self1.0 = device3 and ?e1.0 = TypeError] q
  have 2: "apply_aqt tally_dumps only_200 [?c, ?b] [] device3 refusing =
       (Raised TypeError, device3, refusing)" by simp
  from p q 1 2 show ?thesis by simp
qed

text \<open>
  The claim as stated fails: with \<open>QubitStateVector\<close> first and \<open>BasisState\<close> second, the
  first operation already raises a \<open>KeyError\<close> (its name is not a key of the operation
  map), so the call ends with that error and not with the ordering error.
\<close>

theorem state_preparation_after_failing_operation:
  "apply_aqt tally_dumps only_200
     [\<lparr>name = ''QubitStateVector'', parameters = [Arr [1, 0]], wires = [0]\<rparr>,
      \<lparr>name = ''BasisState'', parameters = [Arr [1]], wires = [0]\<rparr>] [] device3 refusing =
     (Raised (KeyError ''QubitStateVector''), device3, refusing)
   \<and> \<not> is_DeviceError (KeyError ''QubitStateVector'')"
  by (simp add: apply_aqt_def apply_operation_def select_par_def append_op_to_queue_def
      operation_map_def)

subsection \<open>A submission that the gateway refuses\<close>

text \<open>
  Claim C4. When both translation loops finish and the response to the submission has a
  status that \<^verbatim>\<open>valid_status_code\<close> rejects, \<^verbatim>\<open>apply\<close> raises the gateway error with the
  status code and the body of that response. The network then holds exactly one more
  request, the submission, and has given exactly one answer: the poll loop sent nothing.
\<close>

theorem invalid_status_raises:
  "apply_operations 0 ops self = (None, self1) \<and> apply_rotations rots self1 = (None, self2)
   \<and> pending nw = resp # rest \<and> \<not> valid resp \<longrightarrow>
     apply_aqt dumps valid ops rots self nw =
       (Raised (InvalidStatus (status_code resp) (body_text resp)),
        self2\<lparr>circuit_json := dumps (circuit self2),
               data := (data self2)(''repetitions'' \<mapsto> JInt (shots self2))\<rparr>,
        nw\<lparr>sent := sent nw @
               [\<lparr>http_method = HTTP_METHOD, target = hostname self2,
                 body = (data self2)(''repetitions'' \<mapsto> JInt (shots self2),
                                     ''data'' \<mapsto> JStr (dumps (circuit self2))),
                 headers = header self2\<rparr>],
            pending := rest\<rparr>)"
  by (simp add: apply_aqt_def run_job_def Let_def submit_def serialize_def
      raise_invalid_status_exception_def)

text \<open>A Hadamard on the three-wire device, against the gateway that answers 500.\<close>

theorem invalid_status_raises_witness:
  "apply_operations 0 [\<lparr>name = ''Hadamard'', parameters = [], wires = [0]\<rparr>] device3 =
     (None, device3\<lparr>circuit := [Gate (Some ''Y'') (Num (1 / 2)) [0]]\<rparr>)
   \<and> apply_rotations [] (device3\<lparr>circuit := [Gate (Some ''Y'') (Num (1 / 2)) [0]]\<rparr>) =
     (None, device3\<lparr>circuit := [Gate (Some ''Y'') (Num (1 / 2)) [0]]\<rparr>)
   \<and> pending refusing = [\<lparr>status_code = 500, body_text = ''error'', json = None\<rparr>]
   \<and> \<not> only_200 \<lparr>status_code = 500, body_text = ''error'', json = None\<rparr>
   \<and> apply_aqt tally_dumps only_200 [\<lparr>name = ''Hadamard'', parameters = [], wires = [0]\<rparr>] []
        device3 refusing =
       (Raised (InvalidStatus 500 ''error''),
        device3\<lparr>circuit := [Gate (Some ''Y'') (Num (1 / 2)) [0]], circuit_json := ''g'',
               data := (data device3)(''repetitions'' \<mapsto> JInt 200)\<rparr>,
        \<lparr>sent = [\<lparr>http_method = ''PUT'', target = (BASE_HOSTNAME, TARGET_PATH),
                   body = (data device3)(''repetitions'' \<mapsto> JInt 200, ''data'' \<mapsto> JStr ''g''),
                   headers = header device3\<rparr>],
         pending = []\<rparr>)"
proof -
  let ?d = "device3\<lparr>circuit := [Gate (Some ''Y'') (Num (1 / 2)) [0]]\<rparr>"
  let ?r = "\<lparr>status_code = 500, body_text = ''error'', json = None\<rparr>"
  have 1: "apply_operations 0 [\<lparr>name = ''Hadamard'', parameters = [], wires = [0]\<rparr>] device3 = (None, ?d)"
    by (simp add: apply_operation_def append_op_to_queue_def operation_map_def device3_def)
  have 2: "apply_rotations [] ?d = (None, ?d)" by simp
  have 3: "pending refusing = [?r]" by (simp add: refusing_def)
  have 4: "\<not> only_200 ?r" by (simp add: only_200_def)
  from invalid_status_raises
    [of "[\<lparr>name = ''Hadamard'', parameters = [], wires = [0]\<rparr>]" device3 ?d "[]" ?d refusing ?r "[]"
      only_200 tally_dumps] 1 2 3 4
  have "apply_aqt tally_dumps only_200 [\<lparr>name = ''Hadamard'', parameters = [], wires = [0]\<rparr>] []
        device3 refusing =
       (Raised (InvalidStatus 500 ''error''),
        device3\<lparr>circuit := [Gate (Some ''Y'') (Num (1 / 2)) [0]], circuit_json := ''g'',
               data := (data device3)(''repetitions'' \<mapsto> JInt 200)\<rparr>,
        \<lparr>sent = [\<lparr>http_method = ''PUT'', target = (BASE_HOSTNAME, TARGET_PATH),
                   body = (data device3)(''repetitions'' \<mapsto> JInt 200, ''data'' \<mapsto> JStr ''g''),
                   headers = header device3\<rparr>],
         pending = []\<rparr>)"
    by (simp add: tally_dumps_def refusing_def HTTP_METHOD_def device3_def)
  with 1 2 3 4 show ?thesis by blast
qed

subsection \<open>The buffer after an ordering error\<close>

text \<open>
  Claim C10. When \<^verbatim>\<open>apply\<close> raises the operation-ordering \<open>DeviceError\<close>, it does so for a
  state preparation at some position \<open>i > 0\<close>, no request has been sent, and the device it
  leaves is the one the loop produced by translating the operations at positions
  \<open>0 ..< i\<close>: their entries are in the circuit buffer, appended to what was there, and
  nothing is rolled back.
\<close>

theorem ordering_error_keeps_translated_prefix:
  "apply_aqt dumps valid ops rots self nw = (Raised (DeviceError m), self', nw') \<longrightarrow>
     nw' = nw
     \<and> (\<exists>i. 0 < i \<and> i < length ops
           \<and> name (ops ! i) \<in> {''BasisState'', ''QubitStateVector''}
           \<and> m = ''The operation '' @ name (ops ! i)
                    @ '' is only supported at the beginning of a circuit.''
           \<and> apply_operations 0 (take i ops) self = (None, self'))
     \<and> (\<exists>added. self' = self\<lparr>circuit := circuit self @ added\<rparr>)"
proof
  assume a: "apply_aqt dumps valid ops rots self nw = (Raised (DeviceError m), self', nw')"
  obtain r1 s1 where 1: "apply_operations 0 ops self = (r1, s1)"
    by (cases "apply_operations 0 ops self")
  obtain r2 s2 where 2: "apply_rotations rots s1 = (r2, s2)"
    by (cases "apply_rotations rots s1")
  have "r1 \<noteq> None"
  proof
    assume n1: "r1 = None"
    show False
    proof (cases r2)
      case (Some e)
      with a 1 2 n1 have "e = DeviceError m" by (simp add: apply_aqt_def)
      with 2 Some apply_rotations_no_device_error [of rots s1 e s2] show False by simp
    next
      case None
      with a 1 2 n1 have "run_job dumps valid s2 nw = (Raised (DeviceError m), self', nw')"
        by (simp add: apply_aqt_def)
      from run_job_no_device_error [OF this] show False by simp
    qed
  qed
  then obtain e where e: "r1 = Some e" by auto
  with a 1 have "e = DeviceError m" and s: "self' = s1" and n: "nw' = nw"
    by (simp_all add: apply_aqt_def)
  with 1 e have d: "apply_operations 0 ops self = (Some (DeviceError m), self')" by simp
  from apply_operations_device_error [OF d] obtain i where
    "i < length ops" "0 < i" "name (ops ! i) \<in> {''BasisState'', ''QubitStateVector''}"
    "m = ''The operation '' @ name (ops ! i) @ '' is only supported at the beginning of a circuit.''"
    "apply_operations 0 (take i ops) self = (None, self')" by auto
  then have ex: "\<exists>i. 0 < i \<and> i < length ops
           \<and> name (ops ! i) \<in> {''BasisState'', ''QubitStateVector''}
           \<and> m = ''The operation '' @ name (ops ! i)
                    @ '' is only supported at the beginning of a circuit.''
           \<and> apply_operations 0 (take i ops) self = (None, self')" by blast
  from apply_operations_appends [OF d] have "\<exists>added. self' = self\<lparr>circuit := circuit self @ added\<rparr>"
    by blast
  with n ex show "nw' = nw
     \<and> (\<exists>i. 0 < i \<and> i < length ops
           \<and> name (ops ! i) \<in> {''BasisState'', ''QubitStateVector''}
           \<and> m = ''The operation '' @ name (ops ! i)
                    @ '' is only supported at the beginning of a circuit.''
           \<and> apply_operations 0 (take i ops) self = (None, self'))
     \<and> (\<exists>added. self' = self\<lparr>circuit := circuit self @ added\<rparr>)" by blast
qed

text \<open>
  \<open>PauliX\<close>, \<open>Hadamard\<close>, then \<open>BasisState\<close>: after the error the buffer holds the X and
  the Y entry and differs from the buffer before the call.
\<close>

theorem ordering_error_keeps_translated_prefix_witness:
  "apply_aqt tally_dumps only_200
     [\<lparr>name = ''PauliX'', parameters = [], wires = [0]\<rparr>,
      \<lparr>name = ''Hadamard'', parameters = [], wires = [1]\<rparr>,
      \<lparr>name = ''BasisState'', parameters = [Arr [1]], wires = [2]\<rparr>] [] device3 refusing =
     (Raised (DeviceError ''The operation BasisState is only supported at the beginning of a circuit.''),
      device3\<lparr>circuit := [Gate (Some ''X'') (Num 1) [0], Gate (Some ''Y'') (Num (1 / 2)) [1]]\<rparr>,
      refusing)
   \<and> (\<exists>i. 0 < i
         \<and> i < length [\<lparr>name = ''PauliX'', parameters = [], wires = [0]\<rparr>,
                        \<lparr>name = ''Hadamard'', parameters = [], wires = [1]\<rparr>,
                        \<lparr>name = ''BasisState'', parameters = [Arr [1]], wires = [2]\<rparr>]
         \<and> apply_operations 0
              (take i [\<lparr>name = ''PauliX'', parameters = [], wires = [0]\<rparr>,
                       \<lparr>name = ''Hadamard'', parameters = [], wires = [1]\<rparr>,
                       \<lparr>name = ''BasisState'', parameters = [Arr [1]], wires = [2]\<rparr>]) device3 =
             (None, device3\<lparr>circuit := [Gate (Some ''X'') (Num 1) [0],
                                          Gate (Some ''Y'') (Num (1 / 2)) [1]]\<rparr>))
   \<and> circuit (device3\<lparr>circuit := [Gate (Some ''X'') (Num 1) [0],
                                    Gate (Some ''Y'') (Num (1 / 2)) [1]]\<rparr>) \<noteq> circuit device3"
proof -
  let ?ops = "[\<lparr>name = ''PauliX'', parameters = [], wires = [0]\<rparr>,
      \<lparr>name = ''Hadamard'', parameters = [], wires = [1]\<rparr>,
      \<lparr>name = ''BasisState'', parameters = [Arr [1]], wires = [2]\<rparr>]"
  let ?d = "device3\<lparr>circuit := [Gate (Some ''X'') (Num 1) [0], Gate (Some ''Y'') (Num (1 / 2)) [1]]\<rparr>"
  let ?m = "''The operation BasisState is only supported at the beginning of a circuit.''"
  have g: "apply_aqt tally_dumps only_200 ?ops [] device3 refusing = (Raised (DeviceError ?m), ?d, refusing)"
    by (simp add: apply_aqt_def apply_operation_def append_op_to_queue_def operation_map_def
        device3_def)
  from ordering_error_keeps_translated_prefix
    [of tally_dumps only_200 ?ops "[]" device3 refusing ?m ?d refusing] g
  have "\<exists>i. 0 < i \<and> i < length ?ops \<and> apply_operations 0 (take i ?ops) device3 = (None, ?d)"
    by blast
  moreover have "circuit ?d \<noteq> circuit device3" by (simp add: device3_def)
  ultimately show ?thesis using g by blast
qed

end
